theory Spec2Isabelle
  imports Complex_Main "HOL-Library.Sublist" "HOL-Library.AList"
begin

section \<open>Strings\<close>

text \<open>
  JavaScript strings are modelled as \<^typ>\<open>string\<close>, one \<^typ>\<open>char\<close> per UTF-16 code unit, for
  the code units \<open>U+0000\<close> to \<open>U+00FF\<close> (Latin-1). On these, \<open>toLowerCase\<close> folds \<open>A\<close>..\<open>Z\<close> and
  the accented capitals \<open>U+00C0\<close>..\<open>U+00DE\<close> other than the multiplication sign \<open>U+00D7\<close>, each
  to the code unit 32 above it, and leaves every other code unit as it is; the class \<open>\s\<close> of
  the regular expression holds tab, line feed, vertical tab, form feed, carriage return,
  space and the no-break space \<open>U+00A0\<close>.
\<close>

definition toLowerChar :: "char \<Rightarrow> char" where
  "toLowerChar c =
     (let n = (of_char c :: nat)
      in if (65 \<le> n \<and> n \<le> 90) \<or> (192 \<le> n \<and> n \<le> 222 \<and> n \<noteq> 215) then char_of (n + 32) else c)"

definition toLowerCase :: "string \<Rightarrow> string" where
  "toLowerCase s = map toLowerChar s"

definition is_space :: "char \<Rightarrow> bool" where
  "is_space c = ((of_char c :: nat) \<in> {9, 10, 11, 12, 13, 32, 160})"

text \<open>
  \<open>s.split(/\s+/)\<close>: the pieces between maximal runs of white space. A run at the start or at
  the end of the text leaves an empty piece there, and the empty text gives the one-element
  list holding the empty piece.
\<close>

function split_ws :: "string \<Rightarrow> string list" where
  "split_ws s =
     (case dropWhile (\<lambda>c. \<not> is_space c) s of
        [] \<Rightarrow> [s]
      | c # r \<Rightarrow> takeWhile (\<lambda>c. \<not> is_space c) s # split_ws (dropWhile is_space r))"
  by pat_completeness auto
termination
proof (relation "measure length")
  show "wf (measure length)" by simp
next
  fix s :: string and c r
  assume "dropWhile (\<lambda>c. \<not> is_space c) s = c # r"
  then have "length s \<ge> Suc (length r)"
    by (metis length_Cons length_dropWhile_le)
  moreover have "length (dropWhile is_space r) \<le> length r"
    by (rule length_dropWhile_le)
  ultimately show "(dropWhile is_space r, s) \<in> measure length" by simp
qed

declare split_ws.simps [simp del]

text \<open>\<open>s.includes(t)\<close>: \<open>t\<close> occurs in \<open>s\<close> as a contiguous piece.\<close>

fun str_includes :: "string \<Rightarrow> string \<Rightarrow> bool" where
  "str_includes [] t = (t = [])"
| "str_includes (c # s) t = (prefix t (c # s) \<or> str_includes s t)"

section \<open>Articles and trends\<close>

record TrendArticle =
  ta_title :: string
  ta_url :: string
  ta_source :: string
  ta_snippet :: string

record TrendingSearch =
  keyword :: string
  traffic :: string
  relatedQueries :: "string list"
  articles :: "TrendArticle list"

record Article =
  a_id :: string
  title :: string
  url :: string
  a_keywords :: "string list"
  category :: string
  publishedAt :: int
  shortDescription :: "string option"

record TrendMatch =
  trend :: TrendingSearch
  article :: Article
  score :: int

subsection \<open>Relevance scorer\<close>

text \<open>
  \<open>calculateRelevanceScore\<close>, with the value read from \<open>Date.now()\<close> as the argument \<open>now\<close>.
  Each \<open>for ... of\<close> loop that adds to \<open>score\<close> is a \<^const>\<open>fold\<close> over the list it runs through.
\<close>

definition title_points :: "string list \<Rightarrow> string \<Rightarrow> int \<Rightarrow> int" where
  "title_points trendWords titleLower s0 =
     fold (\<lambda>word s. if str_includes titleLower word then s + 3 else s) trendWords s0"

definition word_points :: "string list \<Rightarrow> string \<Rightarrow> int \<Rightarrow> int" where
  "word_points trendWords keywordLower s0 =
     fold (\<lambda>word s. if str_includes keywordLower word \<or> str_includes word keywordLower then s + 2 else s)
       trendWords s0"

definition related_points :: "string list \<Rightarrow> string \<Rightarrow> int \<Rightarrow> int" where
  "related_points trendRelated keywordLower s0 =
     fold (\<lambda>related s.
             if str_includes keywordLower related \<or> str_includes related keywordLower then s + 1 else s)
       trendRelated s0"

definition keyword_points :: "string list \<Rightarrow> string list \<Rightarrow> string list \<Rightarrow> int \<Rightarrow> int" where
  "keyword_points trendWords trendRelated kws s0 =
     fold (\<lambda>kw s. let keywordLower = toLowerCase kw
                   in related_points trendRelated keywordLower
                        (word_points trendWords keywordLower s))
       kws s0"

definition recency_bonus :: "int \<Rightarrow> int \<Rightarrow> int" where
  "recency_bonus now published =
     (let hoursSincePublished = (of_int (now - published) :: rat) / (1000 * 60 * 60)
      in if hoursSincePublished < 24 then 2 else if hoursSincePublished < 72 then 1 else 0)"

definition calculateRelevanceScore :: "int \<Rightarrow> TrendingSearch \<Rightarrow> Article \<Rightarrow> int" where
  "calculateRelevanceScore now t a =
     (let trendWords = split_ws (toLowerCase (keyword t));
          trendRelated = map toLowerCase (relatedQueries t);
          titleLower = toLowerCase (title a);
          s1 = title_points trendWords titleLower 0;
          s2 = keyword_points trendWords trendRelated (a_keywords a) s1
      in s2 + recency_bonus now (publishedAt a))"

subsection \<open>Trend-article matcher\<close>

text \<open>
  \<open>matchWithTrends\<close>. The article list is what \<open>findAll()\<close> returns. Every call of the scorer
  reads the clock anew: \<open>clk k\<close> is the value \<open>Date.now()\<close> returns in the \<open>k\<close>-th call, and the
  loops carry the number of calls made so far together with the array \<open>matches\<close>.
\<close>

primrec match_articles ::
  "(nat \<Rightarrow> int) \<Rightarrow> TrendingSearch \<Rightarrow> Article list \<Rightarrow> nat \<times> TrendMatch list \<Rightarrow> nat \<times> TrendMatch list"
where
  "match_articles clk t [] st = st"
| "match_articles clk t (a # as) st =
     match_articles clk t as
       (let sc = calculateRelevanceScore (clk (fst st)) t a
        in (Suc (fst st),
            if sc > 0 then snd st @ [\<lparr>trend = t, article = a, score = sc\<rparr>] else snd st))"

primrec match_trends ::
  "(nat \<Rightarrow> int) \<Rightarrow> TrendingSearch list \<Rightarrow> Article list \<Rightarrow> nat \<times> TrendMatch list \<Rightarrow> nat \<times> TrendMatch list"
where
  "match_trends clk [] as st = st"
| "match_trends clk (t # ts) as st = match_trends clk ts as (match_articles clk t as st)"

definition collected_matches :: "(nat \<Rightarrow> int) \<Rightarrow> TrendingSearch list \<Rightarrow> Article list \<Rightarrow> TrendMatch list" where
  "collected_matches clk ts as = snd (match_trends clk ts as (0, []))"

text \<open>
  \<open>matches.sort((a, b) => b.score - a.score)\<close>: \<open>Array.prototype.sort\<close> is a stable sort
  (ECMAScript 2019), here on the score in descending order; its result is that of the stable
  insertion sort on the negated score.
\<close>

definition sort_by_score_desc :: "TrendMatch list \<Rightarrow> TrendMatch list" where
  "sort_by_score_desc ms = sort_key (\<lambda>m. - score m) ms"

definition matchWithTrends :: "(nat \<Rightarrow> int) \<Rightarrow> TrendingSearch list \<Rightarrow> Article list \<Rightarrow> TrendMatch list" where
  "matchWithTrends clk ts as = sort_by_score_desc (collected_matches clk ts as)"

text \<open>
  The match that the \<open>i\<close>-th call of the scorer yields for the pair \<open>(t, a)\<close>; the properties of
  the matcher are stated over the pairs \<open>List.product ts as\<close>, numbered in the order the loops
  visit them (trend by trend, and for each trend article by article).
\<close>

definition scored_pair :: "(nat \<Rightarrow> int) \<Rightarrow> nat \<times> TrendingSearch \<times> Article \<Rightarrow> TrendMatch" where
  "scored_pair clk p =
     (case p of (i, t, a) \<Rightarrow> \<lparr>trend = t, article = a, score = calculateRelevanceScore (clk i) t a\<rparr>)"

section \<open>JavaScript values\<close>

text \<open>
  A thrown error and a platform error payload have the static type \<open>any\<close>. They are modelled
  as data: \<open>undefined\<close>, \<open>null\<close>, booleans, numbers, strings, arrays and objects. A number is
  kept as the text that \<open>String(n)\<close> gives (the code only tests numbers for truthiness and
  prints them); an object is a plain object (its prototype is \<open>Object.prototype\<close>), given as
  the list of its own enumerable properties in the order in which \<open>Object.keys\<close> enumerates
  them. Every value of a property is again such a datum, so no property holds a function.
  Functions, symbols, getters and cyclic values are outside the model.
\<close>

datatype jsval =
    JUndefined
  | JNull
  | JBool bool
  | JNum string
  | JStr string
  | JArr "jsval list"
  | JObj "(string \<times> jsval) list"

text \<open>The run-time exceptions the modelled code can raise by itself.\<close>

datatype js_exception = TypeError | RangeError

fun truthy :: "jsval \<Rightarrow> bool" where
  "truthy JUndefined = False"
| "truthy JNull = False"
| "truthy (JBool b) = b"
| "truthy (JNum r) = (r \<noteq> ''0'' \<and> r \<noteq> ''NaN'')"
| "truthy (JStr s) = (s \<noteq> [])"
| "truthy (JArr xs) = True"
| "truthy (JObj fs) = True"

fun nullish :: "jsval \<Rightarrow> bool" where
  "nullish JUndefined = True"
| "nullish JNull = True"
| "nullish v = False"

text \<open>\<open>a || b\<close>, for an operand \<open>b\<close> whose evaluation cannot throw.\<close>

definition js_or :: "jsval \<Rightarrow> jsval \<Rightarrow> jsval" where
  "js_or a b = (if truthy a then a else b)"

text \<open>
  Reading a property of a value that is neither \<open>null\<close> nor \<open>undefined\<close>. None of the property
  names the code reads is defined on the prototypes of the primitive types or of arrays, so
  only objects answer with something else than \<open>undefined\<close>.
\<close>

fun get_prop :: "jsval \<Rightarrow> string \<Rightarrow> jsval" where
  "get_prop (JObj fs) p = (case map_of fs p of Some v \<Rightarrow> v | None \<Rightarrow> JUndefined)"
| "get_prop v p = JUndefined"

text \<open>\<open>x.p\<close> throws on \<open>null\<close> and \<open>undefined\<close>; \<open>x?.p\<close> answers \<open>undefined\<close> there.\<close>

definition member :: "jsval \<Rightarrow> string \<Rightarrow> js_exception + jsval" where
  "member x p = (if nullish x then Inl TypeError else Inr (get_prop x p))"

definition opt_member :: "jsval \<Rightarrow> string \<Rightarrow> jsval" where
  "opt_member x p = (if nullish x then JUndefined else get_prop x p)"

text \<open>
  \<open>Object.keys(x)[0]\<close> and \<open>Object.values(x)[0]\<close>: the first own enumerable property. A
  non-empty string or array has the index \<open>0\<close> first; numbers and booleans have no own
  property; \<open>null\<close> and \<open>undefined\<close> make \<open>Object.keys\<close> throw.
\<close>

fun first_key :: "jsval \<Rightarrow> js_exception + jsval" where
  "first_key JUndefined = Inl TypeError"
| "first_key JNull = Inl TypeError"
| "first_key (JObj ((k, v) # fs)) = Inr (JStr k)"
| "first_key (JArr (x # xs)) = Inr (JStr ''0'')"
| "first_key (JStr (c # s)) = Inr (JStr ''0'')"
| "first_key v = Inr JUndefined"

fun first_value :: "jsval \<Rightarrow> js_exception + jsval" where
  "first_value JUndefined = Inl TypeError"
| "first_value JNull = Inl TypeError"
| "first_value (JObj ((k, v) # fs)) = Inr v"
| "first_value (JArr (x # xs)) = Inr x"
| "first_value (JStr (c # s)) = Inr (JStr [c])"
| "first_value v = Inr JUndefined"

text \<open>
  The conversion of a value to a string, as a template literal \<open>`${v}`\<close> and the elements of
  \<open>xs.join(sep)\<close> undergo it. An object is converted through its \<open>toString\<close> and \<open>valueOf\<close>
  methods: a plain object inherits \<open>Object.prototype.toString\<close>, which gives
  \<open>[object Object]\<close>, unless it has an own property \<open>toString\<close>; that property is not callable
  (it is a datum), \<open>valueOf\<close> is then either an own datum or the inherited method, which
  returns the object itself, and the conversion throws a \<open>TypeError\<close>. An array is converted
  by joining its elements with a comma. \<open>join\<close> prints \<open>null\<close> and \<open>undefined\<close> elements as the
  empty text and converts every other element.
\<close>

fun join_with :: "string \<Rightarrow> string list \<Rightarrow> string" where
  "join_with sep [] = []"
| "join_with sep [x] = x"
| "join_with sep (x # y # ys) = x @ sep @ join_with sep (y # ys)"

fun to_string :: "jsval \<Rightarrow> js_exception + string"
  and element_texts :: "jsval list \<Rightarrow> js_exception + string list" where
  "to_string JUndefined = Inr ''undefined''"
| "to_string JNull = Inr ''null''"
| "to_string (JBool b) = Inr (if b then ''true'' else ''false'')"
| "to_string (JNum r) = Inr r"
| "to_string (JStr s) = Inr s"
| "to_string (JArr xs) =
     (case element_texts xs of Inl x \<Rightarrow> Inl x | Inr ts \<Rightarrow> Inr (join_with '','' ts))"
| "to_string (JObj fs) =
     (if ''toString'' \<in> fst ` set fs then Inl TypeError else Inr ''[object Object]'')"
| "element_texts [] = Inr []"
| "element_texts (x # xs) =
     (case (if nullish x then Inr [] else to_string x) of
        Inl e \<Rightarrow> Inl e
      | Inr t \<Rightarrow> (case element_texts xs of Inl e \<Rightarrow> Inl e | Inr ts \<Rightarrow> Inr (t # ts)))"

definition js_join :: "string \<Rightarrow> jsval list \<Rightarrow> js_exception + string" where
  "js_join sep xs =
     (case element_texts xs of Inl x \<Rightarrow> Inl x | Inr ts \<Rightarrow> Inr (join_with sep ts))"

text \<open>
  \<open>JSON.stringify(v)\<close> is \<open>undefined\<close> for \<open>undefined\<close> and a string for every other value of
  the model; the text itself is left to the parameter \<open>st\<close>.
\<close>

definition json_stringify :: "(jsval \<Rightarrow> string) \<Rightarrow> jsval \<Rightarrow> jsval" where
  "json_stringify st v = (if v = JUndefined then JUndefined else JStr (st v))"

text \<open>\<open>xs.map(f)\<close> for a callback that may throw: the first exception ends the map.\<close>

primrec map_exc :: "('a \<Rightarrow> 'e + 'b) \<Rightarrow> 'a list \<Rightarrow> 'e + 'b list" where
  "map_exc f [] = Inr []"
| "map_exc f (x # xs) =
     (case f x of
        Inl e \<Rightarrow> Inl e
      | Inr y \<Rightarrow> (case map_exc f xs of Inl e \<Rightarrow> Inl e | Inr ys \<Rightarrow> Inr (y # ys)))"

text \<open>
  \<open>m.includes(t)\<close> for a string \<open>t\<close>: substring test on a string, membership on an array, and
  a \<open>TypeError\<close> on every other value, which has no callable \<open>includes\<close>.
\<close>

fun js_includes :: "jsval \<Rightarrow> string \<Rightarrow> js_exception + bool" where
  "js_includes (JStr s) t = Inr (str_includes s t)"
| "js_includes (JArr xs) t = Inr (JStr t \<in> set xs)"
| "js_includes v t = Inl TypeError"

section \<open>Error classifier\<close>

definition BAD_REQUEST :: int where [simp]: "BAD_REQUEST = 400"
definition UNAUTHORIZED :: int where [simp]: "UNAUTHORIZED = 401"
definition FORBIDDEN :: int where [simp]: "FORBIDDEN = 403"
definition NOT_FOUND :: int where [simp]: "NOT_FOUND = 404"
definition TOO_MANY_REQUESTS :: int where [simp]: "TOO_MANY_REQUESTS = 429"
definition INTERNAL_SERVER_ERROR :: int where [simp]: "INTERNAL_SERVER_ERROR = 500"

text \<open>
  One round of the loop of \<open>determineStatusCode\<close>: the status the sub-error \<open>error\<close> decides,
  or \<open>None\<close> when the loop goes on to the next sub-error.
\<close>

definition status_of_error :: "jsval \<Rightarrow> js_exception + int option" where
  "status_of_error error =
     (case member error ''error_code'' of
        Inl x \<Rightarrow> Inl x
      | Inr ec \<Rightarrow>
          (let errorCode = js_or ec (JObj []) in
           case first_key errorCode of
             Inl x \<Rightarrow> Inl x
           | Inr errorType \<Rightarrow>
               (case first_value errorCode of
                  Inl x \<Rightarrow> Inl x
                | Inr errorValue \<Rightarrow>
                    Inr (if errorType = JStr ''range_error'' \<or>
                            errorType = JStr ''currency_error'' \<or>
                            errorType = JStr ''string_length_error'' \<or>
                            errorType = JStr ''field_error'' \<or>
                            errorValue = JStr ''DUPLICATE_CAMPAIGN_NAME'' \<or>
                            errorValue = JStr ''DUPLICATE_NAME'' \<or>
                            errorValue = JStr ''TOO_LOW'' \<or>
                            errorValue = JStr ''TOO_HIGH'' \<or>
                            errorValue = JStr ''VALUE_NOT_MULTIPLE_OF_BILLABLE_UNIT''
                         then Some BAD_REQUEST
                         else if errorType = JStr ''authentication_error'' then Some UNAUTHORIZED
                         else if errorType = JStr ''authorization_error'' then Some FORBIDDEN
                         else if errorType = JStr ''resource_not_found_error'' then Some NOT_FOUND
                         else if errorType = JStr ''quota_error'' then Some TOO_MANY_REQUESTS
                         else None))))"

fun determineStatusCode :: "jsval list \<Rightarrow> js_exception + int" where
  "determineStatusCode [] = Inr BAD_REQUEST"
| "determineStatusCode (error # errors) =
     (case status_of_error error of
        Inl x \<Rightarrow> Inl x
      | Inr (Some s) \<Rightarrow> Inr s
      | Inr None \<Rightarrow> determineStatusCode errors)"

record FormattedError =
  fe_code :: jsval
  fe_type :: jsval
  fe_message :: jsval
  fe_field :: jsval
  fe_trigger :: jsval

text \<open>\<open>e.location?.field_path_elements?.map((f) => f.field_name).join('.') || null\<close>, given
  the value of \<open>e.location\<close>.\<close>

definition field_path :: "jsval \<Rightarrow> js_exception + jsval" where
  "field_path location =
     (let elems = opt_member location ''field_path_elements'' in
      if nullish elems then Inr JNull
      else (case elems of
              JArr fs \<Rightarrow>
                (case map_exc (\<lambda>f. member f ''field_name'') fs of
                   Inl x \<Rightarrow> Inl x
                 | Inr names \<Rightarrow>
                     (case js_join ''.'' names of
                        Inl x \<Rightarrow> Inl x
                      | Inr joined \<Rightarrow> Inr (js_or (JStr joined) JNull)))
            | _ \<Rightarrow> Inl TypeError))"

text \<open>The callback of \<open>error.errors.map\<close> in \<open>extractGoogleAdsErrorDetails\<close>.\<close>

definition format_error :: "jsval \<Rightarrow> js_exception + FormattedError" where
  "format_error e =
     (case member e ''error_code'' of
        Inl x \<Rightarrow> Inl x
      | Inr ec \<Rightarrow>
          (case (if truthy ec then first_key ec else Inr (JStr ''UNKNOWN'')) of
             Inl x \<Rightarrow> Inl x
           | Inr c \<Rightarrow>
               (case (if truthy ec then first_value ec else Inr (JStr ''UNKNOWN'')) of
                  Inl x \<Rightarrow> Inl x
                | Inr ty \<Rightarrow>
                    (case field_path (get_prop e ''location'') of
                       Inl x \<Rightarrow> Inl x
                     | Inr f \<Rightarrow>
                         (case (if truthy (get_prop e ''trigger'') then first_value (get_prop e ''trigger'')
                                else Inr JNull) of
                            Inl x \<Rightarrow> Inl x
                          | Inr tg \<Rightarrow>
                              Inr \<lparr>fe_code = c, fe_type = ty,
                                   fe_message = js_or (get_prop e ''message'') (JStr ''Unknown error''),
                                   fe_field = f, fe_trigger = tg\<rparr>)))))"

record ErrorDetails =
  ed_statusCode :: int
  ed_message :: jsval
  ed_errors :: "FormattedError list"
  ed_requestId :: jsval

definition extractGoogleAdsErrorDetails :: "jsval \<Rightarrow> js_exception + ErrorDetails" where
  "extractGoogleAdsErrorDetails error =
     (let requestId = js_or (opt_member error ''request_id'') JNull in
      case opt_member error ''errors'' of
        JArr (e # es) \<Rightarrow>
          (case map_exc format_error (e # es) of
             Inl x \<Rightarrow> Inl x
           | Inr formattedErrors \<Rightarrow>
               (case determineStatusCode (e # es) of
                  Inl x \<Rightarrow> Inl x
                | Inr statusCode \<Rightarrow>
                    Inr \<lparr>ed_statusCode = statusCode,
                         ed_message =
                           js_or (case formattedErrors of [] \<Rightarrow> JUndefined | f # fs \<Rightarrow> fe_message f)
                             (JStr ''Google Ads API error''),
                         ed_errors = formattedErrors,
                         ed_requestId = requestId\<rparr>))
      | _ \<Rightarrow>
          Inr \<lparr>ed_statusCode = INTERNAL_SERVER_ERROR,
               ed_message = js_or (opt_member error ''message'') (JStr ''An unexpected error occurred''),
               ed_errors = [],
               ed_requestId = requestId\<rparr>)"

record HttpExceptionBody =
  statusCode :: int
  message :: jsval
  errors :: "FormattedError list"
  requestId :: jsval
  timestamp :: string

record HttpException =
  response :: HttpExceptionBody
  status :: int

text \<open>
  \<open>createHttpException\<close>: the argument is either an \<open>HttpException\<close> instance (\<open>Inl\<close>, the
  \<open>instanceof\<close> test) or any other value; \<open>ts\<close> is \<open>new Date().toISOString()\<close>.
\<close>

definition createHttpException :: "string \<Rightarrow> HttpException + jsval \<Rightarrow> js_exception + HttpException" where
  "createHttpException ts error =
     (case error of
        Inl h \<Rightarrow> Inr h
      | Inr v \<Rightarrow>
          (case extractGoogleAdsErrorDetails v of
             Inl x \<Rightarrow> Inl x
           | Inr errorDetails \<Rightarrow>
               Inr \<lparr>response =
                      \<lparr>statusCode = ed_statusCode errorDetails,
                       message = ed_message errorDetails,
                       errors = ed_errors errorDetails,
                       requestId = ed_requestId errorDetails,
                       timestamp = ts\<rparr>,
                    status = ed_statusCode errorDetails\<rparr>))"

text \<open>\<open>extractErrorMessage\<close>, with the text of \<open>JSON.stringify\<close> as the parameter \<open>st\<close>.\<close>

definition extractErrorMessage :: "(jsval \<Rightarrow> string) \<Rightarrow> jsval \<Rightarrow> js_exception + jsval" where
  "extractErrorMessage st error =
     (if \<not> truthy error then Inr (JStr ''Unknown error'')
      else (case get_prop error ''errors'' of
              JArr (e # es) \<Rightarrow>
                (case map_exc
                        (\<lambda>e. case member e ''message'' of
                                Inl x \<Rightarrow> Inl x
                              | Inr m \<Rightarrow> Inr (if truthy m then m
                                              else json_stringify st (get_prop e ''error_code'')))
                        (e # es) of
                   Inl x \<Rightarrow> Inl x
                 | Inr messages \<Rightarrow>
                     (case js_join ''; '' messages of
                        Inl x \<Rightarrow> Inl x
                      | Inr joined \<Rightarrow> Inr (JStr joined)))
            | _ \<Rightarrow>
                (if truthy (get_prop error ''message'') then Inr (get_prop error ''message'')
                 else Inr (json_stringify st error))))"

section \<open>Platform adapter\<close>

text \<open>
  The advertising platform is an external collaborator. Every call the service makes on
  \<open>this.customer\<close> is a \<open>request\<close>; the adapter answers it by resolving with the resource name
  \<open>results[0].resource_name\<close> of its reply, or by rejecting with an error value. The events of
  a run (the calls, and the timer the rollback waits on) are collected in a trace, and the
  answer to a call may depend on everything that happened before it. Logger calls are not
  part of the model; an expression that is evaluated for a log line and can throw is.
\<close>

datatype CampaignStatus = CS_UNSPECIFIED | CS_UNKNOWN | CS_ENABLED | CS_PAUSED | CS_REMOVED

datatype AdvertisingChannelType = SEARCH | DISPLAY | SHOPPING | VIDEO

datatype BudgetDeliveryMethod = STANDARD | ACCELERATED

datatype AdGroupStatus = AG_ENABLED | AG_PAUSED | AG_REMOVED

datatype AdGroupType = SEARCH_STANDARD | DISPLAY_STANDARD

datatype AdGroupCriterionStatus = AGC_ENABLED | AGC_PAUSED | AGC_REMOVED

datatype KeywordMatchType = EXACT | PHRASE | BROAD

datatype AdGroupAdStatus = AGA_ENABLED | AGA_PAUSED | AGA_REMOVED

record BudgetData =
  bd_name :: string
  amount_micros :: int
  delivery_method :: BudgetDeliveryMethod

record ManualCpc =
  enhanced_cpc_enabled :: bool

record NetworkSettings =
  target_google_search :: bool
  target_search_network :: bool
  target_content_network :: bool

record CampaignData =
  cd_name :: string
  advertising_channel_type :: AdvertisingChannelType
  cd_status :: CampaignStatus
  campaign_budget :: string
  manual_cpc :: "ManualCpc option"
  network_settings :: NetworkSettings
  start_date :: string
  end_date :: string
  contains_eu_political_advertising :: string

record AdGroupData =
  ag_campaign :: string
  ag_name :: string
  ag_status :: AdGroupStatus
  ag_type :: AdGroupType
  cpc_bid_micros :: int

record KeywordOperation =
  kw_ad_group :: string
  kw_status :: AdGroupCriterionStatus
  kw_text :: string
  kw_match_type :: KeywordMatchType

record AdData =
  ad_ad_group :: string
  ad_status :: AdGroupAdStatus
  ad_headlines :: "string list"
  ad_descriptions :: "string list"
  final_urls :: "string list"

datatype request =
    CreateCampaignBudgets BudgetData
  | CreateCampaigns CampaignData
  | CreateAdGroups AdGroupData
  | CreateAdGroupCriteria "KeywordOperation list"
  | CreateAdGroupAds AdData
  | RemoveCampaigns string
  | UpdateCampaigns string CampaignStatus
  | RemoveCampaignBudgets string

datatype event = Call request | Sleep nat

datatype outcome = Resolved string | Rejected jsval

fun is_resolved :: "outcome \<Rightarrow> bool" where
  "is_resolved (Resolved r) = True"
| "is_resolved (Rejected e) = False"

text \<open>
  What the code takes from outside: the adapter, the clock (the instant read after a given
  trace), and the built-ins \<open>Date.prototype.toISOString\<close>, \<open>String\<close> on a number and
  \<open>JSON.stringify\<close>.
\<close>

record environment =
  respond :: "event list \<Rightarrow> request \<Rightarrow> outcome"
  clock :: "event list \<Rightarrow> int"
  toISOString :: "int \<Rightarrow> string"
  number_text :: "int \<Rightarrow> string"
  stringify :: "jsval \<Rightarrow> string"

definition perform :: "environment \<Rightarrow> request \<Rightarrow> event list \<Rightarrow> outcome \<times> event list" where
  "perform env req tr = (respond env tr req, tr @ [Call req])"

section \<open>Campaign provisioner\<close>

text \<open>
  An instant (\<open>Date.now()\<close>, the time value of a \<open>Date\<close>) is a number of milliseconds since
  the epoch, as \<^typ>\<open>int\<close>. A \<open>Date\<close> is given by the number it was constructed from:
  \<open>new Date(t)\<close> is an Invalid Date when \<open>t\<close> lies outside the range of time values, which is
  8.64e15 ms on either side of the epoch, and \<open>toISOString\<close> throws a \<open>RangeError\<close> on an
  Invalid Date. The clock only gives valid instants.
\<close>

definition valid_time :: "int \<Rightarrow> bool" where
  "valid_time t = (- 8640000000000000 \<le> t \<and> t \<le> 8640000000000000)"

record CampaignConfig =
  cfg_name :: string
  budgetMicros :: int
  cpcBidMicros :: int
  startDate :: int
  endDate :: int
  cfg_keywords :: "string list"
  finalUrl :: string
  cfg_headlines :: "string list"
  cfg_descriptions :: "string list"

datatype ResultStatus = R_ENABLED | R_PAUSED | R_REMOVED

record CampaignResult =
  campaignId :: string
  adGroupId :: string
  cr_status :: ResultStatus
  resourceName :: string

text \<open>\<open>date.toISOString().split('T')[0].replace(/-/g, '')\<close>\<close>

definition formatDate :: "environment \<Rightarrow> int \<Rightarrow> js_exception + string" where
  "formatDate env date =
     (if valid_time date
      then Inr (filter (\<lambda>c. c \<noteq> CHR ''-'')
                  (takeWhile (\<lambda>c. c \<noteq> CHR ''T'') (toISOString env date)))
      else Inl RangeError)"

text \<open>\<open>resourceName.split('/')\<close> and its last part.\<close>

fun split_slash :: "string \<Rightarrow> string list" where
  "split_slash [] = [[]]"
| "split_slash (c # s) =
     (if c = CHR ''/'' then [] # split_slash s
      else (case split_slash s of [] \<Rightarrow> [[c]] | p # ps \<Rightarrow> (c # p) # ps))"

definition extractId :: "string \<Rightarrow> string" where
  "extractId rn = last (split_slash rn)"

definition budgetData :: "environment \<Rightarrow> string \<Rightarrow> int \<Rightarrow> event list \<Rightarrow> BudgetData" where
  "budgetData env name amountMicros tr =
     \<lparr>bd_name = ''Budget: '' @ name @ '' ('' @ number_text env (clock env tr) @ '')'',
      amount_micros = amountMicros,
      delivery_method = STANDARD\<rparr>"

definition createCampaignBudget ::
  "environment \<Rightarrow> string \<Rightarrow> int \<Rightarrow> event list \<Rightarrow> outcome \<times> event list" where
  "createCampaignBudget env name amountMicros tr =
     perform env (CreateCampaignBudgets (budgetData env name amountMicros tr)) tr"

text \<open>
  The object literal \<open>campaignData\<close> of step 2: its fields are evaluated in order, and either
  call of \<open>formatDate\<close> can throw.
\<close>

definition campaignData ::
  "environment \<Rightarrow> CampaignConfig \<Rightarrow> string \<Rightarrow> js_exception + CampaignData" where
  "campaignData env config budgetResourceName =
     (case formatDate env (startDate config) of
        Inl x \<Rightarrow> Inl x
      | Inr startText \<Rightarrow>
          (case formatDate env (endDate config) of
             Inl x \<Rightarrow> Inl x
           | Inr endText \<Rightarrow>
               Inr \<lparr>cd_name = cfg_name config,
                    advertising_channel_type = SEARCH,
                    cd_status = CS_PAUSED,
                    campaign_budget = budgetResourceName,
                    manual_cpc = Some \<lparr>enhanced_cpc_enabled = False\<rparr>,
                    network_settings =
                      \<lparr>target_google_search = True,
                       target_search_network = False,
                       target_content_network = False\<rparr>,
                    start_date = startText,
                    end_date = endText,
                    contains_eu_political_advertising =
                      ''DOES_NOT_CONTAIN_EU_POLITICAL_ADVERTISING''\<rparr>))"

definition createAdGroup ::
  "environment \<Rightarrow> string \<Rightarrow> string \<Rightarrow> int \<Rightarrow> event list \<Rightarrow> outcome \<times> event list" where
  "createAdGroup env campaignResourceName name cpc tr =
     perform env
       (CreateAdGroups
          \<lparr>ag_campaign = campaignResourceName,
           ag_name = ''AG: '' @ name,
           ag_status = AG_ENABLED,
           ag_type = SEARCH_STANDARD,
           cpc_bid_micros = cpc\<rparr>) tr"

definition addKeywords ::
  "environment \<Rightarrow> string \<Rightarrow> string list \<Rightarrow> event list \<Rightarrow> outcome \<times> event list" where
  "addKeywords env adGroupResourceName kws tr =
     perform env
       (CreateAdGroupCriteria
          (map (\<lambda>kw. \<lparr>kw_ad_group = adGroupResourceName, kw_status = AGC_ENABLED,
                       kw_text = kw, kw_match_type = BROAD\<rparr>) kws)) tr"

definition createResponsiveSearchAd ::
  "environment \<Rightarrow> string \<Rightarrow> string list \<Rightarrow> string list \<Rightarrow> string \<Rightarrow> event list
     \<Rightarrow> outcome \<times> event list" where
  "createResponsiveSearchAd env adGroupResourceName hs ds furl tr =
     perform env
       (CreateAdGroupAds
          \<lparr>ad_ad_group = adGroupResourceName,
           ad_status = AGA_ENABLED,
           ad_headlines = map (take 30) hs,
           ad_descriptions = map (take 90) ds,
           final_urls = [furl]\<rparr>) tr"

subsection \<open>Rollback coordinator\<close>

text \<open>
  What a \<open>catch\<close> block of the rollback does with the error it caught before it goes on:
  \<open>extractErrorMessage\<close> turns the error into a message, and a template literal converts the
  message to a string for the log line. Either can throw, and nothing catches that.
\<close>

definition log_error_message :: "environment \<Rightarrow> jsval \<Rightarrow> js_exception + string" where
  "log_error_message env error =
     (case extractErrorMessage (stringify env) error of
        Inl x \<Rightarrow> Inl x
      | Inr errorMessage \<Rightarrow> to_string errorMessage)"

text \<open>
  The first half of \<open>rollbackCampaignCreation\<close>, for a campaign handle that is present:
  the value of \<open>campaignRemoved\<close>, or the exception that leaves a \<open>catch\<close> block while the
  caught error is turned into a log line.
\<close>

definition remove_campaign ::
  "environment \<Rightarrow> string \<Rightarrow> event list \<Rightarrow> (js_exception + bool) \<times> event list" where
  "remove_campaign env c tr =
     (case perform env (RemoveCampaigns c) tr of
        (Resolved r, tr1) \<Rightarrow> (Inr True, tr1)
      | (Rejected removeError, tr1) \<Rightarrow>
          (case log_error_message env removeError of
             Inl x \<Rightarrow> (Inl x, tr1)
           | Inr removeLine \<Rightarrow>
               (case perform env (UpdateCampaigns c CS_REMOVED) tr1 of
                  (Resolved r, tr2) \<Rightarrow> (Inr True, tr2)
                | (Rejected updateError, tr2) \<Rightarrow>
                    (case log_error_message env updateError of
                       Inl x \<Rightarrow> (Inl x, tr2)
                     | Inr updateLine \<Rightarrow> (Inr False, tr2)))))"

text \<open>
  The second half, for a budget handle that is present. The \<open>catch\<close> block tests the message
  with \<open>includes\<close> (the second test only when the first fails) and then converts it for the
  log line of the branch taken.
\<close>

definition remove_budget ::
  "environment \<Rightarrow> string \<Rightarrow> bool \<Rightarrow> event list \<Rightarrow> (js_exception + unit) \<times> event list" where
  "remove_budget env b campaignRemoved tr =
     (case perform env (RemoveCampaignBudgets b) (if campaignRemoved then tr @ [Sleep 2000] else tr) of
        (Resolved r, tr1) \<Rightarrow> (Inr (), tr1)
      | (Rejected rollbackError, tr1) \<Rightarrow>
          (case extractErrorMessage (stringify env) rollbackError of
             Inl x \<Rightarrow> (Inl x, tr1)
           | Inr errorMessage \<Rightarrow>
               (case js_includes errorMessage ''associated with'' of
                  Inl x \<Rightarrow> (Inl x, tr1)
                | Inr associated \<Rightarrow>
                    (case (if associated then Inr True else js_includes errorMessage ''in use'') of
                       Inl x \<Rightarrow> (Inl x, tr1)
                     | Inr inUse \<Rightarrow>
                         (case to_string errorMessage of
                            Inl x \<Rightarrow> (Inl x, tr1)
                          | Inr line \<Rightarrow> (Inr (), tr1))))))"

text \<open>
  \<open>rollbackCampaignCreation\<close>. The tests \<open>if (campaignResourceName)\<close> and
  \<open>if (budgetResourceName)\<close> are on a \<open>string | null\<close>: \<open>null\<close> and the empty string are falsy.
\<close>

definition rollbackCampaignCreation ::
  "environment \<Rightarrow> string option \<Rightarrow> string option \<Rightarrow> event list
     \<Rightarrow> (js_exception + unit) \<times> event list" where
  "rollbackCampaignCreation env campaignResourceName budgetResourceName tr =
     (case (case campaignResourceName of
              None \<Rightarrow> (Inr False, tr)
            | Some c \<Rightarrow> if c = [] then (Inr False, tr) else remove_campaign env c tr) of
        (Inl x, tr1) \<Rightarrow> (Inl x, tr1)
      | (Inr campaignRemoved, tr1) \<Rightarrow>
          (case budgetResourceName of
             None \<Rightarrow> (Inr (), tr1)
           | Some b \<Rightarrow>
               if b = [] then (Inr (), tr1) else remove_budget env b campaignRemoved tr1))"

subsection \<open>Creation saga\<close>

text \<open>
  What reaches the \<open>catch\<close> block of \<open>createCampaign\<close>: the caught error with the values the
  two handles have at that moment. The caught error is a rejection of the adapter or the
  \<open>RangeError\<close> of \<open>formatDate\<close>. Of a caught error the code reads the properties \<open>message\<close>,
  \<open>errors\<close> and \<open>request_id\<close> and nothing else, so the \<open>RangeError\<close> is given as the object
  with its message (the one of V8, the engine of Node.js).
\<close>

definition invalid_time_error :: jsval where
  "invalid_time_error = JObj [(''message'', JStr ''Invalid time value'')]"

record Caught =
  caught_error :: jsval
  campaignResourceName :: "string option"
  budgetResourceName :: "string option"

definition try_block ::
  "environment \<Rightarrow> CampaignConfig \<Rightarrow> event list \<Rightarrow> (Caught + CampaignResult) \<times> event list" where
  "try_block env config tr =
     (case createCampaignBudget env (cfg_name config) (budgetMicros config) tr of
        (Rejected e, tr1) \<Rightarrow>
          (Inl \<lparr>caught_error = e, campaignResourceName = None, budgetResourceName = None\<rparr>, tr1)
      | (Resolved b, tr1) \<Rightarrow>
          (case campaignData env config b of
             Inl x \<Rightarrow>
               (Inl \<lparr>caught_error = invalid_time_error, campaignResourceName = None,
                     budgetResourceName = Some b\<rparr>, tr1)
           | Inr cd \<Rightarrow>
               (case perform env (CreateCampaigns cd) tr1 of
                  (Rejected e, tr2) \<Rightarrow>
                    (Inl \<lparr>caught_error = e, campaignResourceName = None, budgetResourceName = Some b\<rparr>, tr2)
                | (Resolved c, tr2) \<Rightarrow>
                    (case createAdGroup env c (cfg_name config) (cpcBidMicros config) tr2 of
                       (Rejected e, tr3) \<Rightarrow>
                         (Inl \<lparr>caught_error = e, campaignResourceName = Some c,
                               budgetResourceName = Some b\<rparr>, tr3)
                     | (Resolved g, tr3) \<Rightarrow>
                         (case addKeywords env g (cfg_keywords config) tr3 of
                            (Rejected e, tr4) \<Rightarrow>
                              (Inl \<lparr>caught_error = e, campaignResourceName = Some c,
                                    budgetResourceName = Some b\<rparr>, tr4)
                          | (Resolved k, tr4) \<Rightarrow>
                              (case createResponsiveSearchAd env g (cfg_headlines config)
                                      (cfg_descriptions config) (finalUrl config) tr4 of
                                 (Rejected e, tr5) \<Rightarrow>
                                   (Inl \<lparr>caught_error = e, campaignResourceName = Some c,
                                         budgetResourceName = Some b\<rparr>, tr5)
                               | (Resolved a, tr5) \<Rightarrow>
                                   (Inr \<lparr>campaignId = extractId c, adGroupId = extractId g,
                                         cr_status = R_PAUSED, resourceName = c\<rparr>, tr5)))))))"

text \<open>What a service method can throw to its caller.\<close>

datatype thrown =
    Http HttpException
  | Runtime js_exception
  | Platform jsval
  | NotFound string

text \<open>\<open>throw this.createHttpException(error)\<close>, for an error caught from the adapter.\<close>

definition throw_classified :: "string \<Rightarrow> jsval \<Rightarrow> thrown" where
  "throw_classified ts error =
     (case createHttpException ts (Inr error) of Inl x \<Rightarrow> Runtime x | Inr h \<Rightarrow> Http h)"

text \<open>
  The log lines at the head of the \<open>catch\<close> block of \<open>createCampaign\<close> that convert a part of
  the caught error to a string: \<open>`${error?.message || 'Unknown error'}`\<close> and, when
  \<open>error?.request_id\<close> is truthy, \<open>`${error.request_id}`\<close>. The other lines print
  \<open>JSON.stringify\<close> of the error, which does not throw on the values of the model.
\<close>

definition log_caught_error :: "jsval \<Rightarrow> js_exception + unit" where
  "log_caught_error error =
     (case to_string (js_or (opt_member error ''message'') (JStr ''Unknown error'')) of
        Inl x \<Rightarrow> Inl x
      | Inr messageLine \<Rightarrow>
          (if truthy (opt_member error ''request_id'')
           then (case to_string (get_prop error ''request_id'') of
                   Inl x \<Rightarrow> Inl x
                 | Inr requestLine \<Rightarrow> Inr ())
           else Inr ()))"

text \<open>
  The \<open>catch\<close> block: the log lines, the rollback, and the throw of the classified error. An
  exception raised by the log lines or by the rollback leaves the block in place of it.
\<close>

definition catch_block ::
  "environment \<Rightarrow> Caught \<Rightarrow> event list \<Rightarrow> (thrown + CampaignResult) \<times> event list" where
  "catch_block env c tr =
     (case log_caught_error (caught_error c) of
        Inl x \<Rightarrow> (Inl (Runtime x), tr)
      | Inr u \<Rightarrow>
          (case rollbackCampaignCreation env (campaignResourceName c) (budgetResourceName c) tr of
             (Inl x, tr1) \<Rightarrow> (Inl (Runtime x), tr1)
           | (Inr u, tr1) \<Rightarrow>
               (Inl (throw_classified (toISOString env (clock env tr1)) (caught_error c)), tr1)))"

definition createCampaign ::
  "environment \<Rightarrow> CampaignConfig \<Rightarrow> event list \<Rightarrow> (thrown + CampaignResult) \<times> event list" where
  "createCampaign env config tr =
     (case try_block env config tr of
        (Inr result, tr1) \<Rightarrow> (Inr result, tr1)
      | (Inl c, tr1) \<Rightarrow> catch_block env c tr1)"

section \<open>Campaign lifecycle registry\<close>

datatype StoredStatus = ACTIVE | PAUSED | EXPIRED

record StoredCampaign =
  sc_id :: string
  articleId :: string
  trendKeyword :: string
  sc_result :: CampaignResult
  createdAt :: int
  expiresAt :: int
  sc_status :: StoredStatus

text \<open>
  The string a status has at run time: \<open>StoredCampaign.status\<close> and \<open>CampaignResult.status\<close>
  are unions of string literals.
\<close>

fun stored_status_text :: "StoredStatus \<Rightarrow> string" where
  "stored_status_text ACTIVE = ''ACTIVE''"
| "stored_status_text PAUSED = ''PAUSED''"
| "stored_status_text EXPIRED = ''EXPIRED''"

fun result_status_text :: "ResultStatus \<Rightarrow> string" where
  "result_status_text R_ENABLED = ''ENABLED''"
| "result_status_text R_PAUSED = ''PAUSED''"
| "result_status_text R_REMOVED = ''REMOVED''"

record CreateExpressCampaignDto =
  dto_articleId :: string
  dto_trendKeyword :: string
  dto_budgetMicros :: "int option"
  dto_durationHours :: "int option"

text \<open>The values the constructor of \<open>CampaignsService\<close> reads from the configuration.\<close>

record ServiceDefaults =
  defaultBudgetMicros :: int
  defaultCpcBidMicros :: int
  defaultDurationHours :: int

text \<open>\<open>x || d\<close> for an optional number \<open>x\<close>: \<open>undefined\<close> and \<open>0\<close> are falsy. Durations are whole
  hours.\<close>

definition number_or :: "int option \<Rightarrow> int \<Rightarrow> int" where
  "number_or x d = (case x of None \<Rightarrow> d | Some n \<Rightarrow> if n = 0 then d else n)"

definition text_or :: "string option \<Rightarrow> string \<Rightarrow> string" where
  "text_or x d = (case x of None \<Rightarrow> d | Some s \<Rightarrow> if s = [] then d else s)"

text \<open>
  A \<open>Map\<close> is the list of its entries in insertion order: \<open>get\<close> is \<^const>\<open>map_of\<close>, \<open>set\<close> is
  \<^const>\<open>AList.update\<close> (an existing key keeps its place, a new one goes to the end) and
  \<open>delete\<close> is \<^const>\<open>AList.delete\<close>. The state of the service is the registry together with
  the trace of platform events.
\<close>

type_synonym registry = "(string \<times> StoredCampaign) list"

type_synonym service_state = "registry \<times> event list"

text \<open>
  \<open>createExpressCampaign\<close>. \<open>express_end\<close> is the local \<open>endDate\<close> and \<open>express_config\<close> the
  configuration handed to the provisioner, for the article found in the store and the
  instant \<open>start\<close> read by \<open>new Date()\<close>.
\<close>

definition express_end :: "ServiceDefaults \<Rightarrow> CreateExpressCampaignDto \<Rightarrow> int \<Rightarrow> int" where
  "express_end defaults dto start =
     (let durationHours = number_or (dto_durationHours dto) (defaultDurationHours defaults)
      in start + durationHours * 60 * 60 * 1000)"

definition express_config ::
  "environment \<Rightarrow> ServiceDefaults \<Rightarrow> CreateExpressCampaignDto \<Rightarrow> Article \<Rightarrow> int \<Rightarrow> CampaignConfig" where
  "express_config env defaults dto art start =
     (let budget = number_or (dto_budgetMicros dto) (defaultBudgetMicros defaults);
          campaignName =
            ''Express: '' @ dto_trendKeyword dto @ '' - '' @
            takeWhile (\<lambda>c. c \<noteq> CHR ''T'') (toISOString env start);
          kws = dto_trendKeyword dto # a_keywords art;
          hs = [take 30 (title art),
                category art @ '' - '' @ [CHR 0xDA] @ ''ltima Hora'',
                ''Lee M'' @ [CHR 0xE1] @ ''s Aqu'' @ [CHR 0xED]];
          ds = [text_or (shortDescription art)
                  (''Informaci'' @ [CHR 0xF3] @ ''n actualizada y confiable''),
                ''Toda la actualidad de '' @ category art]
      in \<lparr>cfg_name = campaignName, budgetMicros = budget,
          cpcBidMicros = defaultCpcBidMicros defaults,
          startDate = start, endDate = express_end defaults dto start, cfg_keywords = kws,
          finalUrl = url art, cfg_headlines = hs, cfg_descriptions = ds\<rparr>)"

definition createExpressCampaign ::
  "environment \<Rightarrow> ServiceDefaults \<Rightarrow> (string \<times> Article) list \<Rightarrow> CreateExpressCampaignDto
     \<Rightarrow> service_state \<Rightarrow> (thrown + CampaignResult) \<times> service_state" where
  "createExpressCampaign env defaults store dto st =
     (case map_of store (dto_articleId dto) of
        None \<Rightarrow> (Inl (NotFound (''Article not found: '' @ dto_articleId dto)), st)
      | Some art \<Rightarrow>
          (let start = clock env (snd st) in
           case createCampaign env (express_config env defaults dto art start) (snd st) of
             (Inl x, tr1) \<Rightarrow> (Inl x, (fst st, tr1))
           | (Inr result, tr1) \<Rightarrow>
               (Inr result,
                (AList.update (campaignId result)
                   \<lparr>sc_id = campaignId result, articleId = dto_articleId dto,
                    trendKeyword = dto_trendKeyword dto, sc_result = result,
                    createdAt = start, expiresAt = express_end defaults dto start,
                    sc_status = ACTIVE\<rparr>
                   (fst st),
                 tr1))))"

text \<open>\<open>GoogleAdsService.pauseCampaign\<close>, \<open>enableCampaign\<close> and \<open>removeCampaign\<close>: one update call.\<close>

definition ads_pauseCampaign :: "environment \<Rightarrow> string \<Rightarrow> event list \<Rightarrow> outcome \<times> event list" where
  "ads_pauseCampaign env rn tr = perform env (UpdateCampaigns rn CS_PAUSED) tr"

definition ads_enableCampaign :: "environment \<Rightarrow> string \<Rightarrow> event list \<Rightarrow> outcome \<times> event list" where
  "ads_enableCampaign env rn tr = perform env (UpdateCampaigns rn CS_ENABLED) tr"

definition ads_removeCampaign :: "environment \<Rightarrow> string \<Rightarrow> event list \<Rightarrow> outcome \<times> event list" where
  "ads_removeCampaign env rn tr = perform env (UpdateCampaigns rn CS_REMOVED) tr"

text \<open>\<open>CampaignsService.pauseCampaign\<close>, \<open>enableCampaign\<close> and \<open>removeCampaign\<close>.\<close>

definition pauseCampaign ::
  "environment \<Rightarrow> string \<Rightarrow> service_state \<Rightarrow> (thrown + unit) \<times> service_state" where
  "pauseCampaign env cid st =
     (case map_of (fst st) cid of
        None \<Rightarrow> (Inr (), st)
      | Some campaign \<Rightarrow>
          (case ads_pauseCampaign env (resourceName (sc_result campaign)) (snd st) of
             (Rejected e, tr1) \<Rightarrow> (Inl (Platform e), (fst st, tr1))
           | (Resolved r, tr1) \<Rightarrow>
               (Inr (), (AList.update cid (campaign\<lparr>sc_status := PAUSED\<rparr>) (fst st), tr1))))"

definition enableCampaign ::
  "environment \<Rightarrow> string \<Rightarrow> service_state \<Rightarrow> (thrown + unit) \<times> service_state" where
  "enableCampaign env cid st =
     (case map_of (fst st) cid of
        None \<Rightarrow> (Inr (), st)
      | Some campaign \<Rightarrow>
          (case ads_enableCampaign env (resourceName (sc_result campaign)) (snd st) of
             (Rejected e, tr1) \<Rightarrow> (Inl (Platform e), (fst st, tr1))
           | (Resolved r, tr1) \<Rightarrow>
               (Inr (), (AList.update cid (campaign\<lparr>sc_status := ACTIVE\<rparr>) (fst st), tr1))))"

definition removeCampaign ::
  "environment \<Rightarrow> string \<Rightarrow> service_state \<Rightarrow> (thrown + unit) \<times> service_state" where
  "removeCampaign env cid st =
     (case map_of (fst st) cid of
        None \<Rightarrow> (Inr (), st)
      | Some campaign \<Rightarrow>
          (case ads_removeCampaign env (resourceName (sc_result campaign)) (snd st) of
             (Rejected e, tr1) \<Rightarrow> (Inl (Platform e), (fst st, tr1))
           | (Resolved r, tr1) \<Rightarrow> (Inr (), (AList.delete cid (fst st), tr1))))"

text \<open>
  The log line \<open>`Error cleaning up campaign ${id}: ${error.message}`\<close> of the sweep, for the
  value \<open>removeCampaign\<close> threw: reading \<open>error.message\<close> throws when the value is \<open>null\<close> or
  \<open>undefined\<close>, and the template literal converts the message to a string. What
  \<open>removeCampaign\<close> throws is a rejection of the adapter.
\<close>

fun read_message :: "thrown \<Rightarrow> js_exception + unit" where
  "read_message (Platform v) =
     (case member v ''message'' of
        Inl x \<Rightarrow> Inl x
      | Inr m \<Rightarrow> (case to_string m of Inl x \<Rightarrow> Inl x | Inr line \<Rightarrow> Inr ()))"
| "read_message t = Inr ()"

text \<open>
  The loop of \<open>cleanupExpiredCampaigns\<close>. The \<open>Map\<close> iterator is live, and the body deletes at
  most the entry it is visiting, so the loop visits the entries the registry had when it
  started, in their order; \<open>removeCampaign\<close> looks the key up in the current registry.
\<close>

definition sweep_condition :: "int \<Rightarrow> StoredCampaign \<Rightarrow> bool" where
  "sweep_condition now campaign = (expiresAt campaign < now \<and> sc_status campaign = ACTIVE)"

fun sweep_loop ::
  "environment \<Rightarrow> int \<Rightarrow> registry \<Rightarrow> service_state \<Rightarrow> nat \<Rightarrow> (thrown + nat) \<times> service_state" where
  "sweep_loop env now [] st cleaned = (Inr cleaned, st)"
| "sweep_loop env now (entry # rest) st cleaned =
     (if sweep_condition now (snd entry) then
        (case removeCampaign env (fst entry) st of
           (Inr u, st1) \<Rightarrow> sweep_loop env now rest st1 (cleaned + 1)
         | (Inl err, st1) \<Rightarrow>
             (case read_message err of
                Inl x \<Rightarrow> (Inl (Runtime x), st1)
              | Inr u \<Rightarrow> sweep_loop env now rest st1 cleaned))
      else sweep_loop env now rest st cleaned)"

definition cleanupExpiredCampaigns ::
  "environment \<Rightarrow> service_state \<Rightarrow> (thrown + nat) \<times> service_state" where
  "cleanupExpiredCampaigns env st = sweep_loop env (clock env (snd st)) (fst st) st 0"

text \<open>The platform call by which the sweep removes a stored campaign.\<close>

definition removal_call :: "string \<times> StoredCampaign \<Rightarrow> event" where
  "removal_call entry = Call (UpdateCampaigns (resourceName (sc_result (snd entry))) CS_REMOVED)"

definition removal_calls :: "int \<Rightarrow> registry \<Rightarrow> event list" where
  "removal_calls now reg = map removal_call (filter (\<lambda>entry. sweep_condition now (snd entry)) reg)"

section \<open>Notions used in the statements\<close>

text \<open>The events by which the rollback undoes a creation.\<close>

fun is_cleanup :: "event \<Rightarrow> bool" where
  "is_cleanup (Call (RemoveCampaigns c)) = True"
| "is_cleanup (Call (UpdateCampaigns c s)) = True"
| "is_cleanup (Call (RemoveCampaignBudgets b)) = True"
| "is_cleanup (Sleep n) = True"
| "is_cleanup ev = False"

text \<open>
  Whether the sweep started at trace \<open>tr\<close> on the registry \<open>reg\<close> cleans the entry \<open>p\<close>: the
  entry meets the condition of the loop, and the platform accepts its removal when its turn
  comes, that is, after the removal calls for the entries that stand before it.
\<close>

definition swept :: "environment \<Rightarrow> int \<Rightarrow> event list \<Rightarrow> registry \<Rightarrow> string \<times> StoredCampaign \<Rightarrow> bool" where
  "swept env now tr reg p =
     (sweep_condition now (snd p) \<and>
      is_resolved
        (respond env (tr @ removal_calls now (takeWhile (\<lambda>q. fst q \<noteq> fst p) reg))
           (UpdateCampaigns (resourceName (sc_result (snd p))) CS_REMOVED)))"

subsection \<open>An example run\<close>

text \<open>
  A platform that creates budget, campaign and ad group, rejects the keywords with a quota
  error, rejects the direct removal of a campaign and accepts every update and the removal
  of a budget. The clock stands at 2025-01-15T10:30:00Z, and \<open>toISOString\<close> is given on the
  two days the examples use.
\<close>

definition example_respond :: "event list \<Rightarrow> request \<Rightarrow> outcome" where
  "example_respond h r =
     (case r of
        CreateCampaignBudgets d \<Rightarrow> Resolved ''customers/1/campaignBudgets/7''
      | CreateCampaigns d \<Rightarrow> Resolved ''customers/1/campaigns/9''
      | CreateAdGroups d \<Rightarrow> Resolved ''customers/1/adGroups/4''
      | CreateAdGroupCriteria d \<Rightarrow>
          Rejected (JObj [(''errors'',
                           JArr [JObj [(''error_code'', JObj [(''quota_error'', JStr ''RESOURCE_EXHAUSTED'')]),
                                       (''message'', JStr ''Too many requests'')]]),
                          (''request_id'', JStr ''req-1'')])
      | CreateAdGroupAds d \<Rightarrow> Resolved ''customers/1/adGroupAds/4~5''
      | RemoveCampaigns c \<Rightarrow> Rejected (JObj [(''message'', JStr ''remove is not supported'')])
      | UpdateCampaigns c s \<Rightarrow> Resolved c
      | RemoveCampaignBudgets b \<Rightarrow> Resolved b)"

definition example_env :: environment where
  "example_env =
     \<lparr>respond = example_respond,
      clock = (\<lambda>h. 1736937000000),
      toISOString =
        (\<lambda>d. if d = 1737023400000 then ''2025-01-16T10:30:00.000Z''
             else ''2025-01-15T10:30:00.000Z''),
      number_text = (\<lambda>n. ''1736937000000''),
      stringify = (\<lambda>v. ''{}'')\<rparr>"

definition example_config :: CampaignConfig where
  "example_config =
     \<lparr>cfg_name = ''Express: elecciones'', budgetMicros = 20000000, cpcBidMicros = 500000,
      startDate = 1736937000000, endDate = 1737023400000, cfg_keywords = [''elecciones''],
      finalUrl = ''https://example.com/a'', cfg_headlines = [''h1'', ''h2'', ''h3''],
      cfg_descriptions = [''d1'', ''d2'']\<rparr>"

text \<open>
  A platform that accepts everything, and one that rejects every update of campaign 1 and
  accepts the rest; stored campaigns for the registry examples.
\<close>

definition accepting_env :: environment where
  "accepting_env = example_env\<lparr>respond := \<lambda>h r. Resolved ''customers/1/campaigns/9''\<rparr>"

definition rejecting_env :: environment where
  "rejecting_env =
     example_env\<lparr>respond := \<lambda>h r.
       (case r of
          UpdateCampaigns rn s \<Rightarrow>
            if rn = ''customers/1/campaigns/1''
            then Rejected (JObj [(''message'', JStr ''internal error'')])
            else Resolved rn
        | _ \<Rightarrow> Resolved ''customers/1/campaigns/9'')\<rparr>"

definition example_stored :: "string \<Rightarrow> int \<Rightarrow> string \<times> StoredCampaign" where
  "example_stored i expires =
     (i, \<lparr>sc_id = i, articleId = ''article-1'', trendKeyword = ''elecciones'',
          sc_result = \<lparr>campaignId = i, adGroupId = ''4'', cr_status = R_PAUSED,
                       resourceName = ''customers/1/campaigns/'' @ i\<rparr>,
          createdAt = 1736850600000, expiresAt = expires, sc_status = ACTIVE\<rparr>)"

definition example_article :: Article where
  "example_article =
     \<lparr>a_id = ''article-1'', title = ''Elecciones 2025: Resultados preliminares'',
      url = ''https://example.com/a'', a_keywords = [''elecciones'', ''resultados''],
      category = ''politica'', publishedAt = 1736933400000, shortDescription = None\<rparr>"

definition example_defaults :: ServiceDefaults where
  "example_defaults =
     \<lparr>defaultBudgetMicros = 20000000, defaultCpcBidMicros = 500000, defaultDurationHours = 24\<rparr>"

text \<open>
  The shape of a platform error payload: a message and a request id that are strings, and a
  list of sub-errors, each with an error code, a message that is a string and a location
  whose field path is a list of elements with a field name that is a string. Every one of
  these fields may be absent (\<open>undefined\<close> or \<open>null\<close>), the payload itself included; what is
  excluded is a sub-error or a path element that is \<open>null\<close> or \<open>undefined\<close>, a field path that
  is not an array, and a message, request id or field name of another type than string.
\<close>

fun absent_or_text :: "jsval \<Rightarrow> bool" where
  "absent_or_text JUndefined = True"
| "absent_or_text JNull = True"
| "absent_or_text (JStr s) = True"
| "absent_or_text v = False"

definition well_formed_sub_error :: "jsval \<Rightarrow> bool" where
  "well_formed_sub_error e =
     (\<not> nullish e \<and> absent_or_text (get_prop e ''message'') \<and>
      (case opt_member (get_prop e ''location'') ''field_path_elements'' of
         JUndefined \<Rightarrow> True
       | JNull \<Rightarrow> True
       | JArr fs \<Rightarrow> list_all (\<lambda>f. \<not> nullish f \<and> absent_or_text (get_prop f ''field_name'')) fs
       | _ \<Rightarrow> False))"

definition platform_error :: "jsval \<Rightarrow> bool" where
  "platform_error e =
     (absent_or_text (opt_member e ''message'') \<and> absent_or_text (opt_member e ''request_id'') \<and>
      (case opt_member e ''errors'' of
         JArr es \<Rightarrow> list_all well_formed_sub_error es
       | _ \<Rightarrow> True))"

text \<open>
  The example platform, except that it rejects the direct removal of a campaign with the
  value \<open>{errors: [null]}\<close>; and a platform that rejects every call with \<open>undefined\<close>.
\<close>

definition malformed_env :: environment where
  "malformed_env =
     example_env\<lparr>respond := \<lambda>h r.
       (case r of
          RemoveCampaigns c \<Rightarrow> Rejected (JObj [(''errors'', JArr [JNull])])
        | _ \<Rightarrow> example_respond h r)\<rparr>"

definition undefined_env :: environment where
  "undefined_env = example_env\<lparr>respond := \<lambda>h r. Rejected JUndefined\<rparr>"

section \<open>Properties of the scorer and the matcher\<close>

lemma match_articles_enumerate:
  "match_articles clk t as (k, ms) =
     (k + length as,
      ms @ filter (\<lambda>m. score m > 0) (map (scored_pair clk) (enumerate k (map (Pair t) as))))"
proof (induction as arbitrary: k ms)
  case Nil
  show ?case by simp
next
  case (Cons a as)
  show ?case
    by (simp add: Cons.IH Let_def scored_pair_def)
qed

lemma match_trends_enumerate:
  "match_trends clk ts as (k, ms) =
     (k + length ts * length as,
      ms @ filter (\<lambda>m. score m > 0) (map (scored_pair clk) (enumerate k (List.product ts as))))"
proof (induction ts arbitrary: k ms)
  case Nil
  show ?case by simp
next
  case (Cons t ts)
  show ?case
    by (simp add: Cons.IH match_articles_enumerate enumerate_append_eq add.commute add.left_commute)
qed

lemma collected_matches_enumerate:
  "collected_matches clk ts as =
     filter (\<lambda>m. score m > 0) (map (scored_pair clk) (enumerate 0 (List.product ts as)))"
  by (simp add: collected_matches_def match_trends_enumerate)

lemma product_no_articles: "List.product ts [] = []"
  by (induction ts) simp_all

lemma sorted_desc_sort_by_score:
  "sorted_wrt (\<lambda>x y. x \<ge> y) (map score (sort_by_score_desc ms))"
proof -
  have "sorted (map (\<lambda>m. - score m) (sort_by_score_desc ms))"
    unfolding sort_by_score_desc_def by (rule sorted_sort_key)
  then show ?thesis
    by (simp add: sorted_wrt_map)
qed

lemma stable_sort_by_score:
  "filter (\<lambda>m. score m = k) (sort_by_score_desc ms) = filter (\<lambda>m. score m = k) ms"
proof -
  have "filter (\<lambda>m. - score m = - k) (sort_key (\<lambda>m. - score m) ms)
          = filter (\<lambda>m. - score m = - k) ms"
    by (rule sort_key_stable)
  then show ?thesis by (simp add: sort_by_score_desc_def)
qed

text \<open>
  Claim C3. For all trends and articles, \<open>matchWithTrends\<close> returns its matches in
  non-increasing order of score; for every score \<open>k\<close>, the matches of score \<open>k\<close> stand in the
  result in the order in which the loops met them (trend by trend, then article by article),
  which is what a stable sort leaves; every returned match has a score of at least 1, the
  pairs of score 0 being dropped; and with no trend or no article the result is the empty
  list. The function is total, so no input raises an error.
\<close>

theorem matchWithTrends_sorted_stable:
  "sorted_wrt (\<lambda>x y. x \<ge> y) (map score (matchWithTrends clk ts as))
   \<and> (\<forall>k. filter (\<lambda>m. score m = k) (matchWithTrends clk ts as)
          = filter (\<lambda>m. score m = k)
              (filter (\<lambda>m. score m > 0)
                 (map (scored_pair clk) (enumerate 0 (List.product ts as)))))
   \<and> (\<forall>m \<in> set (matchWithTrends clk ts as). score m \<ge> 1)
   \<and> (ts = [] \<or> as = [] \<longrightarrow> matchWithTrends clk ts as = [])"
proof (intro conjI allI)
  show "sorted_wrt (\<lambda>x y. x \<ge> y) (map score (matchWithTrends clk ts as))"
    by (simp add: matchWithTrends_def sorted_desc_sort_by_score)
next
  fix k
  show "filter (\<lambda>m. score m = k) (matchWithTrends clk ts as)
          = filter (\<lambda>m. score m = k)
              (filter (\<lambda>m. score m > 0)
                 (map (scored_pair clk) (enumerate 0 (List.product ts as))))"
    unfolding matchWithTrends_def stable_sort_by_score collected_matches_enumerate ..
next
  have "set (matchWithTrends clk ts as) = set (collected_matches clk ts as)"
    by (simp add: matchWithTrends_def sort_by_score_desc_def)
  then show "\<forall>m \<in> set (matchWithTrends clk ts as). score m \<ge> 1"
    by (auto simp: collected_matches_enumerate)
next
  show "ts = [] \<or> as = [] \<longrightarrow> matchWithTrends clk ts as = []"
    by (auto simp: matchWithTrends_def sort_by_score_desc_def collected_matches_enumerate
        product_no_articles)
qed

lemma title_points_ge: "s0 \<le> title_points ws tit s0"
  unfolding title_points_def
proof (induction ws arbitrary: s0)
  case Nil
  show ?case by simp
next
  case (Cons w ws)
  have "s0 \<le> (if str_includes tit w then s0 + 3 else s0)" by simp
  also have "\<dots> \<le> fold (\<lambda>word s. if str_includes tit word then s + 3 else s) ws
                      (if str_includes tit w then s0 + 3 else s0)"
    by (rule Cons.IH)
  finally show ?case by simp
qed

lemma word_points_ge: "s0 \<le> word_points ws kl s0"
  unfolding word_points_def
proof (induction ws arbitrary: s0)
  case Nil
  show ?case by simp
next
  case (Cons w ws)
  let ?s = "if str_includes kl w \<or> str_includes w kl then s0 + 2 else s0"
  have "s0 \<le> ?s" by simp
  also have "?s \<le> fold (\<lambda>word s. if str_includes kl word \<or> str_includes word kl
                                    then s + 2 else s) ws ?s"
    by (rule Cons.IH)
  finally show ?case by simp
qed

lemma related_points_ge: "s0 \<le> related_points rs kl s0"
  unfolding related_points_def
proof (induction rs arbitrary: s0)
  case Nil
  show ?case by simp
next
  case (Cons r rs)
  let ?s = "if str_includes kl r \<or> str_includes r kl then s0 + 1 else s0"
  have "s0 \<le> ?s" by simp
  also have "?s \<le> fold (\<lambda>related s. if str_includes kl related \<or> str_includes related kl
                                       then s + 1 else s) rs ?s"
    by (rule Cons.IH)
  finally show ?case by simp
qed

lemma keyword_points_ge: "s0 \<le> keyword_points ws rs kws s0"
proof (induction kws arbitrary: s0)
  case Nil
  show ?case by (simp add: keyword_points_def)
next
  case (Cons kw kws)
  let ?s = "related_points rs (toLowerCase kw) (word_points ws (toLowerCase kw) s0)"
  have "s0 \<le> word_points ws (toLowerCase kw) s0" by (rule word_points_ge)
  also have "\<dots> \<le> ?s" by (rule related_points_ge)
  also have "?s \<le> keyword_points ws rs kws ?s" by (rule Cons.IH)
  finally show ?case by (simp add: keyword_points_def Let_def)
qed

lemma recency_bonus_ge: "0 \<le> recency_bonus now p"
  by (simp add: recency_bonus_def Let_def)

text \<open>The score is never negative, whatever the lists hold.\<close>

lemma calculateRelevanceScore_nonneg: "0 \<le> calculateRelevanceScore now t a"
proof -
  let ?ws = "split_ws (toLowerCase (keyword t))"
  let ?s1 = "title_points ?ws (toLowerCase (title a)) 0"
  have "0 \<le> ?s1" by (rule title_points_ge)
  also have "?s1 \<le> keyword_points ?ws (map toLowerCase (relatedQueries t)) (a_keywords a) ?s1"
    by (rule keyword_points_ge)
  finally show ?thesis
    using recency_bonus_ge [of now "publishedAt a"]
    by (simp add: calculateRelevanceScore_def Let_def)
qed

text \<open>An article without keywords gets nothing from the two keyword loops.\<close>

lemma calculateRelevanceScore_no_keywords:
  "a_keywords a = [] \<Longrightarrow>
   calculateRelevanceScore now t a =
     title_points (split_ws (toLowerCase (keyword t))) (toLowerCase (title a)) 0
       + recency_bonus now (publishedAt a)"
  by (simp add: calculateRelevanceScore_def keyword_points_def Let_def)

text \<open>The token list of a trend is never empty, and the empty token occurs in every text.\<close>

lemma split_ws_not_empty: "split_ws s \<noteq> []"
  by (subst split_ws.simps) (simp split: list.splits)

lemma str_includes_empty: "str_includes s []"
  by (induction s) simp_all

text \<open>
  Claim C7, at the input where the code departs from it. The claim: an empty trend keyword
  yields no meaningful token, so the title loop and the keyword loop add 0. The code: the
  empty keyword splits into the one token that is the empty string, which \<open>includes\<close> finds
  in every title and in every article keyword. For the article titled \<open>Budget vote\<close> with the
  one keyword \<open>economy\<close>, published three days before \<open>now\<close> (no recency bonus), the title
  loop adds 3 and the keyword loop adds 2: the score is 5, not 0.
\<close>

theorem empty_trend_keyword_scores:
  "split_ws (toLowerCase '''') = ['''']
   \<and> title_points [''''] (toLowerCase ''Budget vote'') 0 = 3
   \<and> keyword_points [''''] [] [''economy''] 3 = 5
   \<and> calculateRelevanceScore 259200000
        \<lparr>keyword = '''', traffic = ''0'', relatedQueries = [], articles = []\<rparr>
        \<lparr>a_id = ''article-1'', title = ''Budget vote'', url = ''https://example.com/a'',
         a_keywords = [''economy''], category = ''politica'', publishedAt = 0,
         shortDescription = None\<rparr> = 5"
  by (simp add: calculateRelevanceScore_def split_ws.simps toLowerCase_def title_points_def
      keyword_points_def word_points_def related_points_def recency_bonus_def)

theorem matchWithTrends_witness:
  "1 \<le> score (hd (matchWithTrends (\<lambda>k. 3600000)
        [\<lparr>keyword = ''elecciones 2025'', traffic = ''200K+'', relatedQueries = [], articles = []\<rparr>]
        [\<lparr>a_id = ''article-1'', title = ''Elecciones 2025: Resultados preliminares'',
          url = ''https://example.com/a'', a_keywords = [''elecciones'', ''resultados''],
          category = ''politica'', publishedAt = 0, shortDescription = None\<rparr>]))
   \<and> matchWithTrends (\<lambda>k. 3600000) []
        [\<lparr>a_id = ''article-1'', title = ''Elecciones 2025: Resultados preliminares'',
          url = ''https://example.com/a'', a_keywords = [''elecciones'', ''resultados''],
          category = ''politica'', publishedAt = 0, shortDescription = None\<rparr>] = []"
proof -
  let ?t = "\<lparr>keyword = ''elecciones 2025'', traffic = ''200K+'', relatedQueries = [],
             articles = []\<rparr>"
  let ?a = "\<lparr>a_id = ''article-1'', title = ''Elecciones 2025: Resultados preliminares'',
             url = ''https://example.com/a'', a_keywords = [''elecciones'', ''resultados''],
             category = ''politica'', publishedAt = 0, shortDescription = None\<rparr>"
  have sc: "calculateRelevanceScore 3600000 ?t ?a = 10"
    by code_simp
  have ne: "matchWithTrends (\<lambda>k. 3600000) [?t] [?a] \<noteq> []"
    by (simp add: matchWithTrends_def sort_by_score_desc_def collected_matches_def sc)
  from matchWithTrends_sorted_stable [of "\<lambda>k. 3600000" "[?t]" "[?a]"]
  have "\<forall>m \<in> set (matchWithTrends (\<lambda>k. 3600000) [?t] [?a]). 1 \<le> score m"
    by blast
  with ne have first: "1 \<le> score (hd (matchWithTrends (\<lambda>k. 3600000) [?t] [?a]))"
    by simp
  from matchWithTrends_sorted_stable [of "\<lambda>k. 3600000" "[]" "[?a]"]
  have "matchWithTrends (\<lambda>k. 3600000) [] [?a] = []"
    by simp
  with first show ?thesis by simp
qed

section \<open>Properties of the error classifier\<close>

lemma map_exc_total:
  "(\<And>x. x \<in> set xs \<Longrightarrow> \<exists>y. f x = Inr y) \<Longrightarrow> \<exists>ys. map_exc f xs = Inr ys"
proof (induction xs)
  case Nil
  show ?case by simp
next
  case (Cons x xs)
  from Cons.prems obtain y where y: "f x = Inr y" by auto
  from Cons obtain ys where ys: "map_exc f xs = Inr ys" by auto
  show ?case by (simp add: y ys)
qed

lemma determineStatusCode_skip:
  "\<forall>x \<in> set pre. status_of_error x = Inr None \<Longrightarrow>
   determineStatusCode (pre @ rest) = determineStatusCode rest"
  by (induction pre) simp_all

lemma status_of_error_code:
  "status_of_error (JObj [(''error_code'', JObj [(k, JStr v)])]) =
     Inr (if k = ''range_error'' \<or> k = ''currency_error'' \<or> k = ''string_length_error'' \<or>
             k = ''field_error'' \<or> v = ''DUPLICATE_CAMPAIGN_NAME'' \<or> v = ''DUPLICATE_NAME'' \<or>
             v = ''TOO_LOW'' \<or> v = ''TOO_HIGH'' \<or> v = ''VALUE_NOT_MULTIPLE_OF_BILLABLE_UNIT''
          then Some 400
          else if k = ''authentication_error'' then Some 401
          else if k = ''authorization_error'' then Some 403
          else if k = ''resource_not_found_error'' then Some 404
          else if k = ''quota_error'' then Some 429
          else None)"
  by (simp add: status_of_error_def member_def js_or_def)

text \<open>
  Claim C2 as stated fails: with an authentication sub-error listed before a validation
  sub-error the classifier answers 401, not the validation status 400.
\<close>

theorem determineStatusCode_list_order_counterexample:
  "determineStatusCode
     [JObj [(''error_code'', JObj [(''authentication_error'', JStr ''OAUTH_TOKEN_EXPIRED'')])],
      JObj [(''error_code'', JObj [(''range_error'', JStr ''TOO_LOW'')])]] = Inr 401"
  by (simp add: status_of_error_code)

text \<open>
  Claim C2, amended. The status is decided by the first sub-error, in list order, that falls
  in any category: the sub-errors before it fall in none, and the ones after it are not
  looked at. The category precedence holds inside one sub-error only, whose one error code
  \<open>{k: v}\<close> is tried as validation (by the kind \<open>k\<close> or by the value \<open>v\<close>, duplicate-name and
  out-of-range values included), then authentication, authorization, not-found and quota.
  A list in which no sub-error falls in a category is classified 400.
\<close>

theorem determineStatusCode_first_match:
  "((\<forall>x \<in> set pre. status_of_error x = Inr None) \<and> status_of_error e = Inr (Some s)
      \<longrightarrow> determineStatusCode (pre @ e # post) = Inr s)
   \<and> ((\<forall>x \<in> set pre. status_of_error x = Inr None) \<longrightarrow> determineStatusCode pre = Inr 400)
   \<and> status_of_error (JObj [(''error_code'', JObj [(k, JStr v)])]) =
       Inr (if k = ''range_error'' \<or> k = ''currency_error'' \<or> k = ''string_length_error'' \<or>
               k = ''field_error'' \<or> v = ''DUPLICATE_CAMPAIGN_NAME'' \<or> v = ''DUPLICATE_NAME'' \<or>
               v = ''TOO_LOW'' \<or> v = ''TOO_HIGH'' \<or> v = ''VALUE_NOT_MULTIPLE_OF_BILLABLE_UNIT''
            then Some 400
            else if k = ''authentication_error'' then Some 401
            else if k = ''authorization_error'' then Some 403
            else if k = ''resource_not_found_error'' then Some 404
            else if k = ''quota_error'' then Some 429
            else None)"
proof (intro conjI impI)
  assume "(\<forall>x \<in> set pre. status_of_error x = Inr None) \<and> status_of_error e = Inr (Some s)"
  then show "determineStatusCode (pre @ e # post) = Inr s"
    by (simp add: determineStatusCode_skip)
next
  assume "\<forall>x \<in> set pre. status_of_error x = Inr None"
  then have "determineStatusCode (pre @ []) = determineStatusCode []"
    by (rule determineStatusCode_skip)
  then show "determineStatusCode pre = Inr 400" by simp
next
  show "status_of_error (JObj [(''error_code'', JObj [(k, JStr v)])]) =
       Inr (if k = ''range_error'' \<or> k = ''currency_error'' \<or> k = ''string_length_error'' \<or>
               k = ''field_error'' \<or> v = ''DUPLICATE_CAMPAIGN_NAME'' \<or> v = ''DUPLICATE_NAME'' \<or>
               v = ''TOO_LOW'' \<or> v = ''TOO_HIGH'' \<or> v = ''VALUE_NOT_MULTIPLE_OF_BILLABLE_UNIT''
            then Some 400
            else if k = ''authentication_error'' then Some 401
            else if k = ''authorization_error'' then Some 403
            else if k = ''resource_not_found_error'' then Some 404
            else if k = ''quota_error'' then Some 429
            else None)"
    by (rule status_of_error_code)
qed

theorem determineStatusCode_first_match_witness:
  "determineStatusCode
     ([JObj [(''error_code'', JObj [(''request_error'', JStr ''UNKNOWN'')])]]
      @ JObj [(''error_code'', JObj [(''quota_error'', JStr ''RESOURCE_EXHAUSTED'')])]
      # [JObj [(''error_code'', JObj [(''range_error'', JStr ''TOO_LOW'')])]]) = Inr 429
   \<and> determineStatusCode [JObj [(''error_code'', JObj [(''request_error'', JStr ''UNKNOWN'')])]]
       = Inr 400"
proof -
  let ?u = "JObj [(''error_code'', JObj [(''request_error'', JStr ''UNKNOWN'')])]"
  let ?q = "JObj [(''error_code'', JObj [(''quota_error'', JStr ''RESOURCE_EXHAUSTED'')])]"
  let ?r = "JObj [(''error_code'', JObj [(''range_error'', JStr ''TOO_LOW'')])]"
  have pre: "\<forall>x \<in> set [?u]. status_of_error x = Inr None"
    by (simp add: status_of_error_code)
  have hit: "status_of_error ?q = Inr (Some 429)"
    by (simp add: status_of_error_code)
  from determineStatusCode_first_match [of "[?u]" ?q 429 "[?r]"] pre hit
  have "determineStatusCode ([?u] @ ?q # [?r]) = Inr 429"
    by blast
  moreover from determineStatusCode_first_match [of "[?u]" ?q 429 "[?r]"] pre
  have "determineStatusCode [?u] = Inr 400"
    by blast
  ultimately show ?thesis by simp
qed

text \<open>
  A payload without a non-empty \<open>errors\<close> array (\<open>null\<close>, \<open>undefined\<close>, a primitive, an object
  that lacks the field or holds something else there, an empty array) gets the generic
  classification: status 500, the payload's own message or a fixed text, no sub-errors, and
  the request id when there is one.
\<close>

lemma extractGoogleAdsErrorDetails_generic:
  "(\<And>e es. opt_member error ''errors'' \<noteq> JArr (e # es)) \<Longrightarrow>
   extractGoogleAdsErrorDetails error =
     Inr \<lparr>ed_statusCode = 500,
          ed_message = js_or (opt_member error ''message'') (JStr ''An unexpected error occurred''),
          ed_errors = [],
          ed_requestId = js_or (opt_member error ''request_id'') JNull\<rparr>"
  by (cases "opt_member error ''errors''")
    (auto simp: extractGoogleAdsErrorDetails_def Let_def split: list.splits)

lemma createHttpException_generic:
  "(\<And>e es. opt_member error ''errors'' \<noteq> JArr (e # es)) \<Longrightarrow>
   createHttpException ts (Inr error) =
     Inr \<lparr>response =
            \<lparr>statusCode = 500,
             message = js_or (opt_member error ''message'') (JStr ''An unexpected error occurred''),
             errors = [],
             requestId = js_or (opt_member error ''request_id'') JNull,
             timestamp = ts\<rparr>,
          status = 500\<rparr>"
  by (simp add: createHttpException_def extractGoogleAdsErrorDetails_generic)

lemma first_key_truthy: "truthy v \<Longrightarrow> \<exists>k. first_key v = Inr k"
  by (cases v rule: first_key.cases) simp_all

lemma first_value_truthy: "truthy v \<Longrightarrow> \<exists>k. first_value v = Inr k"
  by (cases v rule: first_value.cases) simp_all

lemma status_of_error_total: "\<not> nullish e \<Longrightarrow> \<exists>s. status_of_error e = Inr s"
proof -
  assume "\<not> nullish e"
  have t: "truthy (js_or (get_prop e ''error_code'') (JObj []))"
    by (simp add: js_or_def)
  from first_key_truthy [OF t] obtain k
    where k: "first_key (js_or (get_prop e ''error_code'') (JObj [])) = Inr k" ..
  from first_value_truthy [OF t] obtain v
    where v: "first_value (js_or (get_prop e ''error_code'') (JObj [])) = Inr v" ..
  from \<open>\<not> nullish e\<close> show ?thesis
    by (simp add: status_of_error_def member_def Let_def k v)
qed

lemma determineStatusCode_total:
  "list_all (\<lambda>e. \<not> nullish e) es \<Longrightarrow> \<exists>s. determineStatusCode es = Inr s"
proof (induction es)
  case Nil
  show ?case by simp
next
  case (Cons e es)
  then have "\<not> nullish e" by simp
  from status_of_error_total [OF this] obtain s where s: "status_of_error e = Inr s" ..
  from Cons obtain s' where "determineStatusCode es = Inr s'" by auto
  with s show ?case by (cases s) simp_all
qed

text \<open>
  Joining values that are strings or absent does not throw, and reading the field names of
  path elements that are neither \<open>null\<close> nor \<open>undefined\<close> does not either.
\<close>

lemma element_texts_total:
  "list_all absent_or_text xs \<Longrightarrow> \<exists>ts. element_texts xs = Inr ts"
proof (induction xs)
  case Nil
  show ?case by simp
next
  case (Cons x xs)
  then obtain ts where ts: "element_texts xs = Inr ts" by auto
  from Cons.prems have "absent_or_text x" by simp
  then show ?case
    by (cases x) (simp_all add: ts)
qed

lemma js_join_total:
  "list_all absent_or_text xs \<Longrightarrow> \<exists>t. js_join sep xs = Inr t"
  using element_texts_total [of xs] by (auto simp: js_join_def)

lemma field_names_read:
  "list_all (\<lambda>f. \<not> nullish f \<and> absent_or_text (get_prop f ''field_name'')) fs \<Longrightarrow>
   map_exc (\<lambda>f. member f ''field_name'') fs = Inr (map (\<lambda>f. get_prop f ''field_name'') fs)"
  by (induction fs) (simp_all add: member_def)

lemma field_path_total:
  assumes "case opt_member location ''field_path_elements'' of
             JUndefined \<Rightarrow> True | JNull \<Rightarrow> True
           | JArr fs \<Rightarrow> list_all (\<lambda>f. \<not> nullish f \<and> absent_or_text (get_prop f ''field_name'')) fs
           | _ \<Rightarrow> False"
  shows "\<exists>f. field_path location = Inr f"
proof (cases "opt_member location ''field_path_elements''")
  case (JArr fs)
  with assms have ok: "list_all (\<lambda>f. \<not> nullish f \<and> absent_or_text (get_prop f ''field_name'')) fs"
    by simp
  then have "list_all absent_or_text (map (\<lambda>f. get_prop f ''field_name'') fs)"
    by (simp add: list_all_iff)
  from js_join_total [OF this] obtain t
    where t: "js_join ''.'' (map (\<lambda>f. get_prop f ''field_name'') fs) = Inr t" ..
  from JArr show ?thesis
    by (simp add: field_path_def Let_def field_names_read [OF ok] t)
qed (use assms in \<open>simp_all add: field_path_def Let_def\<close>)

lemma format_error_total:
  assumes "well_formed_sub_error e"
  shows "\<exists>f. format_error e = Inr f
             \<and> fe_message f = js_or (get_prop e ''message'') (JStr ''Unknown error'')"
proof -
  from assms have nn: "\<not> nullish e" by (simp add: well_formed_sub_error_def)
  from assms have "case opt_member (get_prop e ''location'') ''field_path_elements'' of
             JUndefined \<Rightarrow> True | JNull \<Rightarrow> True
           | JArr fs \<Rightarrow> list_all (\<lambda>f. \<not> nullish f \<and> absent_or_text (get_prop f ''field_name'')) fs
           | _ \<Rightarrow> False"
    by (simp add: well_formed_sub_error_def)
  from field_path_total [OF this] obtain f where f: "field_path (get_prop e ''location'') = Inr f" ..
  obtain c where c: "(if truthy (get_prop e ''error_code'') then first_key (get_prop e ''error_code'')
                      else Inr (JStr ''UNKNOWN'')) = Inr c"
    using first_key_truthy [of "get_prop e ''error_code''"] by (cases "truthy (get_prop e ''error_code'')") auto
  obtain ty where ty: "(if truthy (get_prop e ''error_code'') then first_value (get_prop e ''error_code'')
                      else Inr (JStr ''UNKNOWN'')) = Inr ty"
    using first_value_truthy [of "get_prop e ''error_code''"] by (cases "truthy (get_prop e ''error_code'')") auto
  obtain tg where tg: "(if truthy (get_prop e ''trigger'') then first_value (get_prop e ''trigger'')
                      else Inr JNull) = Inr tg"
    using first_value_truthy [of "get_prop e ''trigger''"] by (cases "truthy (get_prop e ''trigger'')") auto
  from nn show ?thesis
    by (simp add: format_error_def member_def f c ty tg)
qed

lemma map_exc_length: "map_exc f xs = Inr ys \<Longrightarrow> length ys = length xs"
  by (induction xs arbitrary: ys) (auto split: sum.splits)

text \<open>
  On a payload of the shape of a platform error the classifier does not throw. The
  \<open>HttpException\<close> it builds carries one status in both places and the given timestamp; the
  request id of the payload, or \<open>null\<close>; and, when the payload has sub-errors, the status that
  \<open>determineStatusCode\<close> decides on them, every sub-error formatted, and the message of the
  first sub-error, or else the generic classification.
\<close>

lemma createHttpException_platform_error:
  assumes "platform_error e"
  shows "\<exists>h. createHttpException ts (Inr e) = Inr h
           \<and> statusCode (response h) = status h
           \<and> timestamp (response h) = ts
           \<and> requestId (response h) = js_or (opt_member e ''request_id'') JNull
           \<and> (case opt_member e ''errors'' of
                 JArr (x # xs) \<Rightarrow>
                   determineStatusCode (x # xs) = Inr (status h)
                   \<and> map_exc format_error (x # xs) = Inr (errors (response h))
                   \<and> message (response h) = js_or (get_prop x ''message'') (JStr ''Unknown error'')
               | _ \<Rightarrow>
                   status h = 500 \<and> errors (response h) = []
                   \<and> message (response h) =
                       js_or (opt_member e ''message'') (JStr ''An unexpected error occurred''))"
proof (cases "\<exists>x xs. opt_member e ''errors'' = JArr (x # xs)")
  case False
  then have none: "\<And>x xs. opt_member e ''errors'' \<noteq> JArr (x # xs)" by blast
  have "case opt_member e ''errors'' of
          JArr (x # xs) \<Rightarrow> False
        | _ \<Rightarrow> True"
    using False by (auto split: jsval.splits list.splits)
  then show ?thesis
    by (auto simp: createHttpException_generic [OF none] split: jsval.splits list.splits)
next
  case True
  then obtain x xs where arr: "opt_member e ''errors'' = JArr (x # xs)" by blast
  with assms have ok: "list_all well_formed_sub_error (x # xs)"
    by (simp add: platform_error_def)
  have "\<exists>fs. map_exc format_error (x # xs) = Inr fs"
  proof (rule map_exc_total)
    fix y
    assume "y \<in> set (x # xs)"
    with ok have "well_formed_sub_error y" by (auto simp: list_all_iff)
    from format_error_total [OF this] show "\<exists>z. format_error y = Inr z" by blast
  qed
  then obtain fs where fs: "map_exc format_error (x # xs) = Inr fs" ..
  from ok have "well_formed_sub_error x" by simp
  from format_error_total [OF this] obtain f0
    where f0: "format_error x = Inr f0"
      "fe_message f0 = js_or (get_prop x ''message'') (JStr ''Unknown error'')" by blast
  from fs f0(1) obtain fs' where fs': "fs = f0 # fs'"
    by (auto split: sum.splits)
  have tr: "truthy (fe_message f0)"
    by (simp add: f0(2) js_or_def)
  from ok have "list_all (\<lambda>e. \<not> nullish e) (x # xs)"
    by (auto simp: list_all_iff well_formed_sub_error_def)
  from determineStatusCode_total [OF this] obtain s where s: "determineStatusCode (x # xs) = Inr s" ..
  have "createHttpException ts (Inr e) =
      Inr \<lparr>response =
             \<lparr>statusCode = s, message = fe_message f0, errors = fs,
              requestId = js_or (opt_member e ''request_id'') JNull, timestamp = ts\<rparr>,
           status = s\<rparr>"
    using arr fs s fs' tr
    by (simp add: createHttpException_def extractGoogleAdsErrorDetails_def Let_def js_or_def)
  with arr fs s f0(2) show ?thesis by simp
qed

text \<open>
  Claim C8, at the input where the code departs from it. The claim: the classifier never
  throws, and a malformed payload gets the generic classification. The code: on the payload
  \<open>{errors: [null]}\<close> the field \<open>errors\<close> is a non-empty array, so the classifier formats its
  sub-errors, and the callback of \<open>error.errors.map\<close> reads \<open>e.error_code\<close> of \<open>null\<close>:
  \<open>createHttpException\<close> throws a \<open>TypeError\<close> and returns no classification.
\<close>

theorem createHttpException_null_sub_error:
  "createHttpException ''2025-01-15T10:30:00.000Z'' (Inr (JObj [(''errors'', JArr [JNull])]))
     = Inl TypeError"
  by (simp add: createHttpException_def extractGoogleAdsErrorDetails_def format_error_def
      member_def opt_member_def)

text \<open>
  The same payload in a \<open>catch\<close> block of the rollback: \<open>extractErrorMessage\<close> reads
  \<open>e.message\<close> of the \<open>null\<close> sub-error. On a payload of the shape of a platform error it
  gives a string, and so does the log line.
\<close>

lemma extractErrorMessage_null_sub_error:
  "extractErrorMessage st (JObj [(''errors'', JArr [JNull])]) = Inl TypeError"
  by (simp add: extractErrorMessage_def member_def)

lemma extractErrorMessage_platform_error:
  assumes "platform_error e"
  shows "\<exists>s. extractErrorMessage st e = Inr (JStr s)"
proof (cases "truthy e")
  case False
  then show ?thesis by (simp add: extractErrorMessage_def)
next
  case True
  then have nn: "\<not> nullish e" by (cases e) simp_all
  then have om: "\<And>p. opt_member e p = get_prop e p" by (simp add: opt_member_def)
  from True have ne: "e \<noteq> JUndefined" by auto
  have msg: "\<exists>s. (if truthy (get_prop e ''message'') then Inr (get_prop e ''message'')
                   else Inr (json_stringify st e)) = (Inr (JStr s) :: js_exception + jsval)"
    using assms ne
    by (cases "get_prop e ''message''") (auto simp: platform_error_def om json_stringify_def)
  show ?thesis
  proof (cases "\<exists>x xs. get_prop e ''errors'' = JArr (x # xs)")
    case False
    then have "extractErrorMessage st e =
       (if truthy (get_prop e ''message'') then Inr (get_prop e ''message'')
        else Inr (json_stringify st e))"
      using True
      by (cases "get_prop e ''errors''")
        (auto simp: extractErrorMessage_def split: list.splits)
    with msg show ?thesis by simp
  next
    case sub: True
    then obtain x xs where xs: "get_prop e ''errors'' = JArr (x # xs)" by blast
    with assms have ok: "list_all well_formed_sub_error (x # xs)"
      by (simp add: platform_error_def om)
    let ?m = "\<lambda>y. if truthy (get_prop y ''message'') then get_prop y ''message''
                   else json_stringify st (get_prop y ''error_code'')"
    have rd: "map_exc
            (\<lambda>e. case member e ''message'' of
                    Inl x \<Rightarrow> Inl x
                  | Inr m \<Rightarrow> Inr (if truthy m then m
                                  else json_stringify st (get_prop e ''error_code'')))
            ys = Inr (map ?m ys)" if "list_all well_formed_sub_error ys" for ys
      using that by (induction ys) (simp_all add: well_formed_sub_error_def member_def)
    have am: "absent_or_text (?m y)" if "well_formed_sub_error y" for y
      using that
      by (cases "get_prop y ''message''") (auto simp: well_formed_sub_error_def json_stringify_def)
    have "list_all absent_or_text (map ?m ys)" if "list_all well_formed_sub_error ys" for ys
      using that by (induction ys) (simp_all add: am split del: if_split)
    from this [OF ok] have "list_all absent_or_text (map ?m (x # xs))" .
    from js_join_total [OF this] obtain t where t: "js_join ''; '' (map ?m (x # xs)) = Inr t" ..
    show ?thesis
      using True xs t rd [OF ok]
      by (simp add: extractErrorMessage_def)
  qed
qed

lemma log_error_message_platform_error:
  assumes "platform_error e"
  shows "\<exists>line. log_error_message env e = Inr line"
  using extractErrorMessage_platform_error [OF assms, of "stringify env"]
  by (auto simp: log_error_message_def)

lemma log_caught_error_platform_error:
  assumes "platform_error e"
  shows "log_caught_error e = Inr ()"
proof -
  have m: "\<exists>t. to_string (js_or (opt_member e ''message'') (JStr ''Unknown error'')) = Inr t"
    using assms
    by (cases "opt_member e ''message''") (auto simp: platform_error_def js_or_def)
  have r: "\<exists>t. to_string (opt_member e ''request_id'') = Inr t"
    using assms
    by (cases "opt_member e ''request_id''") (auto simp: platform_error_def)
  have "truthy (opt_member e ''request_id'') \<Longrightarrow> opt_member e ''request_id'' = get_prop e ''request_id''"
    by (auto simp: opt_member_def split: if_splits)
  with m r show ?thesis
    by (auto simp: log_caught_error_def)
qed

section \<open>Properties of the provisioner and the rollback\<close>

text \<open>
  The two halves of the rollback in closed form, for a platform whose rejections of the
  cleanup calls have the shape of a platform error: no \<open>catch\<close> block throws.
\<close>

lemma remove_campaign_contract:
  assumes contract: "\<And>h r e. is_cleanup (Call r) \<Longrightarrow> respond env h r = Rejected e \<Longrightarrow> platform_error e"
  shows "remove_campaign env c tr =
     (Inr (is_resolved (respond env tr (RemoveCampaigns c)) \<or>
           is_resolved (respond env (tr @ [Call (RemoveCampaigns c)]) (UpdateCampaigns c CS_REMOVED))),
      tr @ Call (RemoveCampaigns c) #
        (if is_resolved (respond env tr (RemoveCampaigns c)) then []
         else [Call (UpdateCampaigns c CS_REMOVED)]))"
proof (cases "respond env tr (RemoveCampaigns c)")
  case (Resolved r)
  then show ?thesis by (simp add: remove_campaign_def perform_def)
next
  case (Rejected e1)
  with contract [of "RemoveCampaigns c"] have "platform_error e1" by simp
  from log_error_message_platform_error [OF this]
  obtain s1 where s1: "log_error_message env e1 = Inr s1" ..
  show ?thesis
  proof (cases "respond env (tr @ [Call (RemoveCampaigns c)]) (UpdateCampaigns c CS_REMOVED)")
    case (Resolved r)
    with Rejected s1 show ?thesis by (simp add: remove_campaign_def perform_def)
  next
    case inner: (Rejected e2)
    with contract [of "UpdateCampaigns c CS_REMOVED"] have "platform_error e2" by simp
    from log_error_message_platform_error [OF this]
    obtain s2 where s2: "log_error_message env e2 = Inr s2" ..
    from Rejected s1 inner s2 show ?thesis by (simp add: remove_campaign_def perform_def)
  qed
qed

lemma remove_budget_contract:
  assumes contract: "\<And>h r e. is_cleanup (Call r) \<Longrightarrow> respond env h r = Rejected e \<Longrightarrow> platform_error e"
  shows "remove_budget env b removed tr =
     (Inr (), tr @ (if removed then [Sleep 2000] else []) @ [Call (RemoveCampaignBudgets b)])"
proof (cases "respond env (if removed then tr @ [Sleep 2000] else tr) (RemoveCampaignBudgets b)")
  case (Resolved r)
  then show ?thesis by (simp add: remove_budget_def perform_def)
next
  case (Rejected e)
  with contract [of "RemoveCampaignBudgets b"] have "platform_error e" by simp
  from extractErrorMessage_platform_error [OF this]
  obtain s where "extractErrorMessage (stringify env) e = Inr (JStr s)" ..
  with Rejected show ?thesis
    by (simp add: remove_budget_def perform_def split: bool.splits)
qed


text \<open>
  Claim C1, at the input where the code departs from it. The claim: the rollback never
  throws, and the caller receives the error of the step that failed. The code: the keywords
  step is rejected with a quota error after budget, campaign and ad group were created, and
  the platform rejects the direct removal of the campaign with the value \<open>{errors: [null]}\<close>.
  The \<open>catch\<close> block of the removal turns that value into a log message, reading \<open>e.message\<close>
  of the \<open>null\<close> sub-error, which throws a \<open>TypeError\<close> that nothing catches: the rollback
  throws, the fallback update and the removal of the budget are never attempted, and the
  caller receives the \<open>TypeError\<close> in place of the classified quota error.
\<close>

theorem rollback_throws_on_null_sub_error:
  "createCampaign malformed_env example_config [] =
     (Inl (Runtime TypeError),
      [Call (CreateCampaignBudgets
               \<lparr>bd_name = ''Budget: Express: elecciones (1736937000000)'',
                amount_micros = 20000000, delivery_method = STANDARD\<rparr>),
       Call (CreateCampaigns
               \<lparr>cd_name = ''Express: elecciones'', advertising_channel_type = SEARCH,
                cd_status = CS_PAUSED, campaign_budget = ''customers/1/campaignBudgets/7'',
                manual_cpc = Some \<lparr>enhanced_cpc_enabled = False\<rparr>,
                network_settings =
                  \<lparr>target_google_search = True, target_search_network = False,
                   target_content_network = False\<rparr>,
                start_date = ''20250115'', end_date = ''20250116'',
                contains_eu_political_advertising = ''DOES_NOT_CONTAIN_EU_POLITICAL_ADVERTISING''\<rparr>),
       Call (CreateAdGroups
               \<lparr>ag_campaign = ''customers/1/campaigns/9'', ag_name = ''AG: Express: elecciones'',
                ag_status = AG_ENABLED, ag_type = SEARCH_STANDARD, cpc_bid_micros = 500000\<rparr>),
       Call (CreateAdGroupCriteria
               [\<lparr>kw_ad_group = ''customers/1/adGroups/4'', kw_status = AGC_ENABLED,
                 kw_text = ''elecciones'', kw_match_type = BROAD\<rparr>]),
       Call (RemoveCampaigns ''customers/1/campaigns/9'')])"
  by (simp add: createCampaign_def try_block_def catch_block_def rollbackCampaignCreation_def
      remove_campaign_def createCampaignBudget_def createAdGroup_def addKeywords_def
      perform_def budgetData_def campaignData_def formatDate_def valid_time_def
      log_caught_error_def log_error_message_def opt_member_def js_or_def malformed_env_def
      example_env_def example_respond_def example_config_def extractErrorMessage_null_sub_error)

text \<open>
  What does hold of the rollback. Let both handles be set (to non-empty resource names), and
  let every rejection of a cleanup call have the shape of a platform error. Then the rollback
  issues, in this order: the direct removal of the campaign; only if the platform rejects
  it, the update that sets the campaign's status to \<open>REMOVED\<close>; the 2-second wait, exactly
  when one of the two was accepted; and last the removal of the budget. Whatever the
  platform answers to these calls, the rollback does not throw; and when the caught error
  \<open>e\<close> has the shape of a platform error too, the \<open>catch\<close> block throws the classification of
  \<open>e\<close>.
\<close>

lemma rollback_order:
  assumes contract: "\<forall>h r x. is_cleanup (Call r) \<and> respond env h r = Rejected x \<longrightarrow> platform_error x"
    and handles: "c \<noteq> []" "b \<noteq> []"
  shows "let direct = is_resolved (respond env tr1 (RemoveCampaigns c));
             fallback = is_resolved (respond env (tr1 @ [Call (RemoveCampaigns c)])
                                       (UpdateCampaigns c CS_REMOVED));
             tr2 = tr1 @ Call (RemoveCampaigns c)
                     # (if direct then [] else [Call (UpdateCampaigns c CS_REMOVED)])
                     @ (if direct \<or> fallback then [Sleep 2000] else [])
                     @ [Call (RemoveCampaignBudgets b)]
         in rollbackCampaignCreation env (Some c) (Some b) tr1 = (Inr (), tr2)
            \<and> (platform_error e \<longrightarrow>
                  (\<exists>h. createHttpException (toISOString env (clock env tr2)) (Inr e) = Inr h
                      \<and> catch_block env
                          \<lparr>caught_error = e, campaignResourceName = Some c,
                           budgetResourceName = Some b\<rparr> tr1
                        = (Inl (Http h), tr2)))"
proof -
  from contract
  have obj: "\<And>h r x. is_cleanup (Call r) \<Longrightarrow> respond env h r = Rejected x \<Longrightarrow> platform_error x"
    by blast
  let ?tr2 = "tr1 @ Call (RemoveCampaigns c)
         # (if is_resolved (respond env tr1 (RemoveCampaigns c)) then []
            else [Call (UpdateCampaigns c CS_REMOVED)])
         @ (if is_resolved (respond env tr1 (RemoveCampaigns c)) \<or>
               is_resolved (respond env (tr1 @ [Call (RemoveCampaigns c)])
                              (UpdateCampaigns c CS_REMOVED))
            then [Sleep 2000] else [])
         @ [Call (RemoveCampaignBudgets b)]"
  have rb: "rollbackCampaignCreation env (Some c) (Some b) tr1 = (Inr (), ?tr2)"
    using handles
    by (simp add: rollbackCampaignCreation_def remove_campaign_contract [OF obj]
        remove_budget_contract [OF obj])
  have cb: "\<exists>h. createHttpException (toISOString env (clock env ?tr2)) (Inr e) = Inr h
              \<and> catch_block env
                  \<lparr>caught_error = e, campaignResourceName = Some c, budgetResourceName = Some b\<rparr> tr1
                = (Inl (Http h), ?tr2)" if pe: "platform_error e"
  proof -
    from createHttpException_platform_error [OF pe, of "toISOString env (clock env ?tr2)"]
    obtain h where h: "createHttpException (toISOString env (clock env ?tr2)) (Inr e) = Inr h"
      by blast
    have "catch_block env
            \<lparr>caught_error = e, campaignResourceName = Some c, budgetResourceName = Some b\<rparr> tr1
          = (Inl (Http h), ?tr2)"
      by (simp add: catch_block_def log_caught_error_platform_error [OF pe] rb
          throw_classified_def h)
    with h show ?thesis by blast
  qed
  show ?thesis
    unfolding Let_def using rb cb by blast
qed



text \<open>
  An example of the full rollback: the keywords step is rejected with a quota error, the
  direct removal of the campaign is rejected, the update is accepted, and the budget is
  removed after the wait; the caller receives the quota error classified as 429.
\<close>

lemma rollback_example_run:
  "createCampaign example_env example_config [] =
     (Inl (Http \<lparr>response =
                   \<lparr>statusCode = 429, message = JStr ''Too many requests'',
                    errors = [\<lparr>fe_code = JStr ''quota_error'', fe_type = JStr ''RESOURCE_EXHAUSTED'',
                               fe_message = JStr ''Too many requests'', fe_field = JNull,
                               fe_trigger = JNull\<rparr>],
                    requestId = JStr ''req-1'', timestamp = ''2025-01-15T10:30:00.000Z''\<rparr>,
                 status = 429\<rparr>),
      [Call (CreateCampaignBudgets
               \<lparr>bd_name = ''Budget: Express: elecciones (1736937000000)'',
                amount_micros = 20000000, delivery_method = STANDARD\<rparr>),
       Call (CreateCampaigns
               \<lparr>cd_name = ''Express: elecciones'', advertising_channel_type = SEARCH,
                cd_status = CS_PAUSED, campaign_budget = ''customers/1/campaignBudgets/7'',
                manual_cpc = Some \<lparr>enhanced_cpc_enabled = False\<rparr>,
                network_settings =
                  \<lparr>target_google_search = True, target_search_network = False,
                   target_content_network = False\<rparr>,
                start_date = ''20250115'', end_date = ''20250116'',
                contains_eu_political_advertising = ''DOES_NOT_CONTAIN_EU_POLITICAL_ADVERTISING''\<rparr>),
       Call (CreateAdGroups
               \<lparr>ag_campaign = ''customers/1/campaigns/9'', ag_name = ''AG: Express: elecciones'',
                ag_status = AG_ENABLED, ag_type = SEARCH_STANDARD, cpc_bid_micros = 500000\<rparr>),
       Call (CreateAdGroupCriteria
               [\<lparr>kw_ad_group = ''customers/1/adGroups/4'', kw_status = AGC_ENABLED,
                 kw_text = ''elecciones'', kw_match_type = BROAD\<rparr>]),
       Call (RemoveCampaigns ''customers/1/campaigns/9''),
       Call (UpdateCampaigns ''customers/1/campaigns/9'' CS_REMOVED),
       Sleep 2000,
       Call (RemoveCampaignBudgets ''customers/1/campaignBudgets/7'')])"
proof -
  let ?e = "JObj [(''errors'',
                   JArr [JObj [(''error_code'', JObj [(''quota_error'', JStr ''RESOURCE_EXHAUSTED'')]),
                               (''message'', JStr ''Too many requests'')]]),
                  (''request_id'', JStr ''req-1'')]"
  let ?tr1 = "[Call (CreateCampaignBudgets
               \<lparr>bd_name = ''Budget: Express: elecciones (1736937000000)'',
                amount_micros = 20000000, delivery_method = STANDARD\<rparr>),
       Call (CreateCampaigns
               \<lparr>cd_name = ''Express: elecciones'', advertising_channel_type = SEARCH,
                cd_status = CS_PAUSED, campaign_budget = ''customers/1/campaignBudgets/7'',
                manual_cpc = Some \<lparr>enhanced_cpc_enabled = False\<rparr>,
                network_settings =
                  \<lparr>target_google_search = True, target_search_network = False,
                   target_content_network = False\<rparr>,
                start_date = ''20250115'', end_date = ''20250116'',
                contains_eu_political_advertising = ''DOES_NOT_CONTAIN_EU_POLITICAL_ADVERTISING''\<rparr>),
       Call (CreateAdGroups
               \<lparr>ag_campaign = ''customers/1/campaigns/9'', ag_name = ''AG: Express: elecciones'',
                ag_status = AG_ENABLED, ag_type = SEARCH_STANDARD, cpc_bid_micros = 500000\<rparr>),
       Call (CreateAdGroupCriteria
               [\<lparr>kw_ad_group = ''customers/1/adGroups/4'', kw_status = AGC_ENABLED,
                 kw_text = ''elecciones'', kw_match_type = BROAD\<rparr>])]"
  have resp: "respond example_env = example_respond"
    by (simp add: example_env_def)
  have contract: "\<forall>h r x. is_cleanup (Call r) \<and> respond example_env h r = Rejected x \<longrightarrow> platform_error x"
    by (auto simp: resp example_respond_def platform_error_def opt_member_def split: request.splits)
  have pe: "platform_error ?e"
    by (simp add: platform_error_def well_formed_sub_error_def opt_member_def)
  have failed: "try_block example_env example_config [] =
      (Inl \<lparr>caught_error = ?e, campaignResourceName = Some ''customers/1/campaigns/9'',
            budgetResourceName = Some ''customers/1/campaignBudgets/7''\<rparr>, ?tr1)"
    by (simp add: try_block_def createCampaignBudget_def createAdGroup_def addKeywords_def
        perform_def resp example_respond_def example_config_def budgetData_def campaignData_def
        formatDate_def valid_time_def example_env_def)
  have cls: "createHttpException ''2025-01-15T10:30:00.000Z'' (Inr ?e) =
      Inr \<lparr>response =
              \<lparr>statusCode = 429, message = JStr ''Too many requests'',
               errors = [\<lparr>fe_code = JStr ''quota_error'', fe_type = JStr ''RESOURCE_EXHAUSTED'',
                          fe_message = JStr ''Too many requests'', fe_field = JNull,
                          fe_trigger = JNull\<rparr>],
               requestId = JStr ''req-1'', timestamp = ''2025-01-15T10:30:00.000Z''\<rparr>,
            status = 429\<rparr>"
    by (simp add: createHttpException_def extractGoogleAdsErrorDetails_def
        opt_member_def member_def format_error_def field_path_def status_of_error_def js_or_def)
  have iso: "\<And>tr. toISOString example_env (clock example_env tr) = ''2025-01-15T10:30:00.000Z''"
    by (simp add: example_env_def)
  from rollback_order [OF contract, where c = "''customers/1/campaigns/9''"
      and b = "''customers/1/campaignBudgets/7''" and ?tr1.0 = ?tr1 and e = ?e] pe
  show ?thesis
    by (simp add: Let_def resp example_respond_def createCampaign_def failed cls iso)
qed







lemma createCampaign_success:
  assumes "createCampaign env config tr = (Inr r, tr1)"
  shows "try_block env config tr = (Inr r, tr1)"
proof (cases "try_block env config tr")
  case (Pair a tr2)
  show ?thesis
  proof (cases a)
    case (Inr result)
    with Pair assms show ?thesis by (simp add: createCampaign_def)
  next
    case (Inl c)
    with Pair assms have "catch_block env c tr2 = (Inr r, tr1)"
      by (simp add: createCampaign_def)
    then show ?thesis
      by (auto simp: catch_block_def split: prod.splits sum.splits)
  qed
qed

lemma try_block_success:
  assumes "try_block env config tr = (Inr r, tr1)"
  shows "\<exists>b x c g e3 e4 e5.
           campaignData env config b = Inr x
           \<and> r = \<lparr>campaignId = extractId c, adGroupId = extractId g, cr_status = R_PAUSED,
                  resourceName = c\<rparr>
           \<and> tr1 = tr @ [Call (CreateCampaignBudgets
                                 (budgetData env (cfg_name config) (budgetMicros config) tr)),
                          Call (CreateCampaigns x),
                          e3, e4, e5]"
  using assms
  by (auto simp: try_block_def createCampaignBudget_def createAdGroup_def addKeywords_def
      createResponsiveSearchAd_def perform_def split: outcome.splits sum.splits)








text \<open>
  The \<open>catch\<close> block sees a campaign handle exactly when the budget and the campaign were
  created and a later step (ad group, keywords or ad) was rejected.
\<close>

lemma try_block_caught_after_campaign:
  assumes "try_block env config tr = (Inl f, tr1)" and "campaignResourceName f = Some c"
  shows "\<exists>b x. budgetResourceName f = Some b
           \<and> campaignData env config b = Inr x
           \<and> respond env tr
                (CreateCampaignBudgets (budgetData env (cfg_name config) (budgetMicros config) tr))
               = Resolved b
           \<and> respond env
                (tr @ [Call (CreateCampaignBudgets
                               (budgetData env (cfg_name config) (budgetMicros config) tr))])
                (CreateCampaigns x) = Resolved c
           \<and> prefix
                (tr @ [Call (CreateCampaignBudgets
                               (budgetData env (cfg_name config) (budgetMicros config) tr)),
                       Call (CreateCampaigns x),
                       Call (CreateAdGroups
                               \<lparr>ag_campaign = c, ag_name = ''AG: '' @ cfg_name config,
                                ag_status = AG_ENABLED, ag_type = SEARCH_STANDARD,
                                cpc_bid_micros = cpcBidMicros config\<rparr>)])
                tr1"
  using assms
  by (auto simp: try_block_def createCampaignBudget_def createAdGroup_def addKeywords_def
      createResponsiveSearchAd_def perform_def prefix_def split: outcome.splits sum.splits)

text \<open>
  When only the budget exists, the rollback removes the budget at once, without the wait.
  This is the case when the creation of the campaign was rejected, and when a date of the
  configuration is an Invalid Date: then \<open>formatDate\<close> throws after the budget was created,
  no campaign request is sent, the budget is removed, and the caller receives the
  \<open>RangeError\<close> classified as 500.
\<close>

lemma rollback_budget_only:
  assumes "\<forall>h r x. is_cleanup (Call r) \<and> respond env h r = Rejected x \<longrightarrow> platform_error x" and "b \<noteq> []"
  shows "rollbackCampaignCreation env None (Some b) tr = (Inr (), tr @ [Call (RemoveCampaignBudgets b)])"
proof -
  from assms(1) have "\<And>h r x. is_cleanup (Call r) \<Longrightarrow> respond env h r = Rejected x \<Longrightarrow> platform_error x"
    by blast
  from remove_budget_contract [OF this] assms(2) show ?thesis
    by (simp add: rollbackCampaignCreation_def)
qed

lemma invalid_date_rolls_back:
  assumes contract: "\<forall>h r x. is_cleanup (Call r) \<and> respond env h r = Rejected x \<longrightarrow> platform_error x"
    and budget: "respond env tr
                   (CreateCampaignBudgets (budgetData env (cfg_name config) (budgetMicros config) tr))
                 = Resolved b"
    and handle: "b \<noteq> []"
    and invalid: "\<not> valid_time (startDate config) \<or> \<not> valid_time (endDate config)"
  shows "createCampaign env config tr =
     (Inl (Http \<lparr>response =
                   \<lparr>statusCode = 500, message = JStr ''Invalid time value'', errors = [],
                    requestId = JNull,
                    timestamp =
                      toISOString env
                        (clock env
                           (tr @ [Call (CreateCampaignBudgets
                                          (budgetData env (cfg_name config) (budgetMicros config) tr)),
                                  Call (RemoveCampaignBudgets b)]))\<rparr>,
                 status = 500\<rparr>),
      tr @ [Call (CreateCampaignBudgets
                    (budgetData env (cfg_name config) (budgetMicros config) tr)),
            Call (RemoveCampaignBudgets b)])"
proof -
  let ?tr1 = "tr @ [Call (CreateCampaignBudgets
                            (budgetData env (cfg_name config) (budgetMicros config) tr))]"
  from invalid have "\<exists>x. campaignData env config b = Inl x"
    by (auto simp: campaignData_def formatDate_def split: sum.splits)
  then obtain x where cd: "campaignData env config b = Inl x" ..
  have tb: "try_block env config tr =
      (Inl \<lparr>caught_error = invalid_time_error, campaignResourceName = None,
            budgetResourceName = Some b\<rparr>, ?tr1)"
    using budget cd by (simp add: try_block_def createCampaignBudget_def perform_def)
  have lg: "log_caught_error invalid_time_error = Inr ()"
    by (simp add: log_caught_error_def invalid_time_error_def opt_member_def js_or_def)
  have cls: "\<And>ts. throw_classified ts invalid_time_error =
      Http \<lparr>response =
              \<lparr>statusCode = 500, message = JStr ''Invalid time value'', errors = [],
               requestId = JNull, timestamp = ts\<rparr>,
            status = 500\<rparr>"
    by (simp add: throw_classified_def createHttpException_def extractGoogleAdsErrorDetails_def
        invalid_time_error_def opt_member_def js_or_def)
  show ?thesis
    by (simp add: createCampaign_def tb catch_block_def lg
        rollback_budget_only [OF contract handle] cls)
qed

section \<open>Properties of the lifecycle registry\<close>

lemma map_of_entry:
  assumes "fst p \<notin> fst ` set kept"
  shows "map_of (kept @ p # rest) (fst p) = Some (snd p)"
proof -
  from assms have "map_of kept (fst p) = None"
    by (simp add: map_of_eq_None_iff)
  then show ?thesis
    by (cases p) (simp add: map_add_def)
qed

lemma delete_entry:
  assumes "fst p \<notin> fst ` set kept" and "fst p \<notin> fst ` set rest"
  shows "AList.delete (fst p) (kept @ p # rest) = kept @ rest"
proof -
  have "AList.delete (fst p) (kept @ p # rest)
      = AList.delete (fst p) kept @ AList.delete (fst p) (p # rest)"
    by (simp add: AList.delete_eq)
  also have "AList.delete (fst p) kept = kept"
    using assms(1) by (rule AList.delete_id)
  also have "AList.delete (fst p) (p # rest) = AList.delete (fst p) rest"
    by (cases p) simp
  also have "AList.delete (fst p) rest = rest"
    using assms(2) by (rule AList.delete_id)
  finally show ?thesis .
qed

lemma removal_calls_snoc:
  "removal_calls now (seen @ [p]) =
     removal_calls now seen @ (if sweep_condition now (snd p) then [removal_call p] else [])"
  by (simp add: removal_calls_def)

lemma swept_head:
  assumes "fst p \<notin> fst ` set seen"
  shows "swept env now tr0 (seen @ p # rest) p =
     (sweep_condition now (snd p) \<and>
      is_resolved (respond env (tr0 @ removal_calls now seen)
                     (UpdateCampaigns (resourceName (sc_result (snd p))) CS_REMOVED)))"
proof -
  from assms have "\<And>q. q \<in> set seen \<Longrightarrow> fst q \<noteq> fst p"
    by (metis image_eqI)
  then have "takeWhile (\<lambda>q. fst q \<noteq> fst p) (seen @ p # rest) = seen"
    by simp
  then show ?thesis by (simp add: swept_def)
qed

text \<open>
  The log line of the sweep does not throw on a caught value that is neither \<open>null\<close> nor
  \<open>undefined\<close> and whose message is a string or absent.
\<close>

lemma read_message_text:
  "\<not> nullish e \<Longrightarrow> absent_or_text (get_prop e ''message'') \<Longrightarrow> read_message (Platform e) = Inr ()"
  by (cases "get_prop e ''message''") (simp_all add: member_def)

lemma sweep_loop_general:
  assumes readable: "\<And>h r e. respond env h r = Rejected e \<Longrightarrow>
                        \<not> nullish e \<and> absent_or_text (get_prop e ''message'')"
  shows "distinct (map fst (seen @ rest)) \<Longrightarrow> fst ` set kept \<subseteq> fst ` set seen \<Longrightarrow>
     sweep_loop env now rest (kept @ rest, tr0 @ removal_calls now seen) n =
       (Inr (n + length (filter (swept env now tr0 (seen @ rest)) rest)),
        (kept @ filter (\<lambda>p. \<not> swept env now tr0 (seen @ rest) p) rest,
         tr0 @ removal_calls now (seen @ rest)))"
proof (induction rest arbitrary: seen kept n)
  case Nil
  show ?case by simp
next
  case (Cons p rest)
  let ?reg = "seen @ p # rest"
  let ?S = "swept env now tr0 ?reg"
  let ?tr = "tr0 @ removal_calls now seen"
  let ?req = "UpdateCampaigns (resourceName (sc_result (snd p))) CS_REMOVED"
  from Cons.prems(1) have p_done: "fst p \<notin> fst ` set seen"
    by auto
  from Cons.prems(1) have p_rest: "fst p \<notin> fst ` set rest"
    by auto
  from p_done Cons.prems(2) have p_kept: "fst p \<notin> fst ` set kept"
    by auto
  have dist: "distinct (map fst ((seen @ [p]) @ rest))"
    using Cons.prems(1) by simp
  have reg: "(seen @ [p]) @ rest = ?reg" by simp
  have Sp: "?S p = (sweep_condition now (snd p) \<and> is_resolved (respond env ?tr ?req))"
    using p_done by (rule swept_head)
  show ?case
  proof (cases "sweep_condition now (snd p)")
    case False
    have sub: "fst ` set (kept @ [p]) \<subseteq> fst ` set (seen @ [p])"
      using Cons.prems(2) by auto
    from False have tr: "tr0 @ removal_calls now (seen @ [p]) = ?tr"
      by (simp add: removal_calls_snoc)
    from Cons.IH [OF dist sub, of n]
    have "sweep_loop env now rest (kept @ p # rest, ?tr) n =
       (Inr (n + length (filter ?S rest)),
        (kept @ p # filter (\<lambda>q. \<not> ?S q) rest, tr0 @ removal_calls now ?reg))"
      by (simp add: tr)
    with False Sp show ?thesis by simp
  next
    case True
    let ?tr1 = "?tr @ [Call ?req]"
    from True have tr: "tr0 @ removal_calls now (seen @ [p]) = ?tr1"
      by (simp add: removal_calls_snoc removal_call_def)
    have look: "map_of (kept @ p # rest) (fst p) = Some (snd p)"
      using p_kept by (rule map_of_entry)
    show ?thesis
    proof (cases "respond env ?tr ?req")
      case (Resolved r)
      have rm: "removeCampaign env (fst p) (kept @ p # rest, ?tr) = (Inr (), (kept @ rest, ?tr1))"
        using Resolved
        by (simp add: removeCampaign_def look ads_removeCampaign_def perform_def
            delete_entry [OF p_kept p_rest] del: map_of_append)
      have sub: "fst ` set kept \<subseteq> fst ` set (seen @ [p])"
        using Cons.prems(2) by auto
      from Cons.IH [OF dist sub, of "n + 1"]
      have "sweep_loop env now rest (kept @ rest, ?tr1) (n + 1) =
         (Inr (n + 1 + length (filter ?S rest)),
          (kept @ filter (\<lambda>q. \<not> ?S q) rest, tr0 @ removal_calls now ?reg))"
        by (simp add: tr)
      with True Resolved Sp rm show ?thesis by simp
    next
      case (Rejected e)
      from readable [OF this] have rd: "read_message (Platform e) = Inr ()"
        using read_message_text [of e] by blast
      have rm: "removeCampaign env (fst p) (kept @ p # rest, ?tr)
          = (Inl (Platform e), (kept @ p # rest, ?tr1))"
        using Rejected
        by (simp add: removeCampaign_def look ads_removeCampaign_def perform_def
            del: map_of_append)
      have sub: "fst ` set (kept @ [p]) \<subseteq> fst ` set (seen @ [p])"
        using Cons.prems(2) by auto
      from Cons.IH [OF dist sub, of n]
      have "sweep_loop env now rest (kept @ p # rest, ?tr1) n =
         (Inr (n + length (filter ?S rest)),
          (kept @ p # filter (\<lambda>q. \<not> ?S q) rest, tr0 @ removal_calls now ?reg))"
        by (simp add: tr)
      with True Rejected Sp rm rd show ?thesis by simp
    qed
  qed
qed

text \<open>
  Claim C5, at the input where the code departs from it. The claim: the failure of one
  removal does not abort the sweep of the remaining entries. The code: three campaigns are
  stored, the first and the third expired and active, and the platform rejects every call
  with \<open>undefined\<close>. The removal of the first campaign fails, and the \<open>catch\<close> block of the
  sweep reads \<open>error.message\<close> of the caught \<open>undefined\<close> for its log line, which throws a
  \<open>TypeError\<close> that nothing catches: the sweep ends there, the removal of the other expired
  campaign is never attempted, and no count is returned.
\<close>

theorem sweep_aborts_on_undefined_rejection:
  "cleanupExpiredCampaigns undefined_env
     ([example_stored ''1'' 1736930000000, example_stored ''2'' 1737000000000,
       example_stored ''3'' 1736933600000], []) =
     (Inl (Runtime TypeError),
      ([example_stored ''1'' 1736930000000, example_stored ''2'' 1737000000000,
        example_stored ''3'' 1736933600000],
       [Call (UpdateCampaigns ''customers/1/campaigns/1'' CS_REMOVED)]))"
  by (simp add: cleanupExpiredCampaigns_def sweep_condition_def removeCampaign_def
      ads_removeCampaign_def perform_def member_def undefined_env_def example_env_def
      example_stored_def)

text \<open>
  What does hold of the sweep. Let the registry hold one entry per campaign id, and let every
  rejection of the adapter be a value other than \<open>null\<close> and \<open>undefined\<close> whose message is a
  string or absent. Then the sweep returns normally; it asks the platform to remove every
  entry whose expiry lies before the instant read at the start and whose status is
  \<open>ACTIVE\<close>, in registry order and whatever the earlier answers were; it deletes exactly the
  entries whose removal the platform accepted and keeps all others in their order; and it
  returns the number of entries it deleted. When the platform accepts every removal, the
  deleted entries are exactly the expired active ones.
\<close>

lemma cleanupExpiredCampaigns_sweep:
  assumes readable: "\<forall>h r e. respond env h r = Rejected e \<longrightarrow>
                        \<not> nullish e \<and> absent_or_text (get_prop e ''message'')"
    and keys: "distinct (map fst reg)"
  shows "cleanupExpiredCampaigns env (reg, tr) =
           (Inr (length (filter (swept env (clock env tr) tr reg) reg)),
            (filter (\<lambda>p. \<not> swept env (clock env tr) tr reg p) reg,
             tr @ removal_calls (clock env tr) reg))
         \<and> ((\<forall>h r. is_resolved (respond env h r)) \<longrightarrow>
              cleanupExpiredCampaigns env (reg, tr) =
                (Inr (length (filter (\<lambda>p. expiresAt (snd p) < clock env tr
                                           \<and> sc_status (snd p) = ACTIVE) reg)),
                 (filter (\<lambda>p. \<not> (expiresAt (snd p) < clock env tr
                                    \<and> sc_status (snd p) = ACTIVE)) reg,
                  tr @ map (\<lambda>p. Call (UpdateCampaigns (resourceName (sc_result (snd p)))
                                        CS_REMOVED))
                         (filter (\<lambda>p. expiresAt (snd p) < clock env tr
                                        \<and> sc_status (snd p) = ACTIVE) reg))))"
proof -
  have "removal_calls (clock env tr) [] = []"
    by (simp add: removal_calls_def)
  moreover from readable
  have "\<And>h r e. respond env h r = Rejected e \<Longrightarrow>
          \<not> nullish e \<and> absent_or_text (get_prop e ''message'')"
    by blast
  note sweep_loop_general [OF this, where seen = "[]" and rest = reg and kept = "[]"
      and now = "clock env tr" and ?tr0.0 = tr and n = 0]
  ultimately have main: "cleanupExpiredCampaigns env (reg, tr) =
           (Inr (length (filter (swept env (clock env tr) tr reg) reg)),
            (filter (\<lambda>p. \<not> swept env (clock env tr) tr reg p) reg,
             tr @ removal_calls (clock env tr) reg))"
    using keys by (simp add: cleanupExpiredCampaigns_def)
  have "\<forall>h r. is_resolved (respond env h r) \<Longrightarrow>
        swept env (clock env tr) tr reg =
          (\<lambda>p. expiresAt (snd p) < clock env tr \<and> sc_status (snd p) = ACTIVE)"
    by (auto simp: swept_def sweep_condition_def fun_eq_iff)
  moreover have "removal_calls (clock env tr) reg =
      map (\<lambda>p. Call (UpdateCampaigns (resourceName (sc_result (snd p))) CS_REMOVED))
        (filter (\<lambda>p. expiresAt (snd p) < clock env tr \<and> sc_status (snd p) = ACTIVE) reg)"
    by (simp add: removal_calls_def removal_call_def sweep_condition_def fun_eq_iff)
  ultimately show ?thesis using main by auto
qed

text \<open>
  Claim C10. For a campaign id that the registry holds: when the platform rejects the
  update that \<open>pauseCampaign\<close>, \<open>enableCampaign\<close> or \<open>removeCampaign\<close> delegates, the rejection
  reaches the caller and the registry is the one before the call; the status is flipped,
  or the entry deleted, only when the platform accepts the update.
\<close>

theorem platform_failure_leaves_registry:
  assumes "map_of reg cid = Some campaign"
  shows "(respond env tr (UpdateCampaigns (resourceName (sc_result campaign)) CS_PAUSED) = Rejected e \<longrightarrow>
            pauseCampaign env cid (reg, tr) =
              (Inl (Platform e),
               (reg, tr @ [Call (UpdateCampaigns (resourceName (sc_result campaign)) CS_PAUSED)])))
       \<and> (respond env tr (UpdateCampaigns (resourceName (sc_result campaign)) CS_ENABLED) = Rejected e \<longrightarrow>
            enableCampaign env cid (reg, tr) =
              (Inl (Platform e),
               (reg, tr @ [Call (UpdateCampaigns (resourceName (sc_result campaign)) CS_ENABLED)])))
       \<and> (respond env tr (UpdateCampaigns (resourceName (sc_result campaign)) CS_REMOVED) = Rejected e \<longrightarrow>
            removeCampaign env cid (reg, tr) =
              (Inl (Platform e),
               (reg, tr @ [Call (UpdateCampaigns (resourceName (sc_result campaign)) CS_REMOVED)])))
       \<and> (respond env tr (UpdateCampaigns (resourceName (sc_result campaign)) CS_PAUSED) = Resolved r \<longrightarrow>
            pauseCampaign env cid (reg, tr) =
              (Inr (),
               (AList.update cid (campaign\<lparr>sc_status := PAUSED\<rparr>) reg,
                tr @ [Call (UpdateCampaigns (resourceName (sc_result campaign)) CS_PAUSED)])))
       \<and> (respond env tr (UpdateCampaigns (resourceName (sc_result campaign)) CS_ENABLED) = Resolved r \<longrightarrow>
            enableCampaign env cid (reg, tr) =
              (Inr (),
               (AList.update cid (campaign\<lparr>sc_status := ACTIVE\<rparr>) reg,
                tr @ [Call (UpdateCampaigns (resourceName (sc_result campaign)) CS_ENABLED)])))
       \<and> (respond env tr (UpdateCampaigns (resourceName (sc_result campaign)) CS_REMOVED) = Resolved r \<longrightarrow>
            removeCampaign env cid (reg, tr) =
              (Inr (),
               (AList.delete cid reg,
                tr @ [Call (UpdateCampaigns (resourceName (sc_result campaign)) CS_REMOVED)])))"
  using assms
  by (simp add: pauseCampaign_def enableCampaign_def removeCampaign_def ads_pauseCampaign_def
      ads_enableCampaign_def ads_removeCampaign_def perform_def)

text \<open>
  Claim C9. When \<open>createExpressCampaign\<close> succeeds, the registry gets, under the id of the
  returned campaign, an entry whose status is \<open>ACTIVE\<close>, whose creation instant is the one
  read at the start and whose expiry is that instant plus the duration in hours (the
  requested one, or the configured default when none or 0 is requested), times 3600000 ms;
  the entry holds the returned result, whose status is \<open>PAUSED\<close>, so the two status texts
  differ.
\<close>

theorem express_campaign_registry_entry:
  assumes "createExpressCampaign env defaults store dto (reg, tr) = (Inr result, (reg1, tr1))"
  shows "reg1 = AList.update (campaignId result)
                  \<lparr>sc_id = campaignId result, articleId = dto_articleId dto,
                   trendKeyword = dto_trendKeyword dto, sc_result = result,
                   createdAt = clock env tr,
                   expiresAt = clock env tr
                     + number_or (dto_durationHours dto) (defaultDurationHours defaults) * 3600000,
                   sc_status = ACTIVE\<rparr> reg
         \<and> (\<exists>entry. map_of reg1 (campaignId result) = Some entry
              \<and> sc_status entry = ACTIVE
              \<and> expiresAt entry = createdAt entry
                  + number_or (dto_durationHours dto) (defaultDurationHours defaults) * 3600000
              \<and> (\<forall>h. dto_durationHours dto = Some h \<and> h \<noteq> 0 \<longrightarrow>
                    expiresAt entry = createdAt entry + h * 3600000)
              \<and> sc_result entry = result
              \<and> cr_status (sc_result entry) = R_PAUSED
              \<and> stored_status_text (sc_status entry) \<noteq> result_status_text (cr_status (sc_result entry)))"
proof -
  let ?h = "number_or (dto_durationHours dto) (defaultDurationHours defaults)"
  let ?entry = "\<lparr>sc_id = campaignId result, articleId = dto_articleId dto,
                   trendKeyword = dto_trendKeyword dto, sc_result = result,
                   createdAt = clock env tr,
                   expiresAt = clock env tr + ?h * 3600000,
                   sc_status = ACTIVE\<rparr>"
  from assms obtain art where art: "map_of store (dto_articleId dto) = Some art"
    by (cases "map_of store (dto_articleId dto)") (auto simp: createExpressCampaign_def)
  let ?config = "express_config env defaults dto art (clock env tr)"
  have fin: "express_end defaults dto (clock env tr) = clock env tr + ?h * 3600000"
    by (simp add: express_end_def)
  from assms art have cc: "createCampaign env ?config tr = (Inr result, tr1)"
    by (auto simp: createExpressCampaign_def Let_def split: prod.splits sum.splits)
  from assms art have reg1: "reg1 = AList.update (campaignId result) ?entry reg"
    by (auto simp: createExpressCampaign_def Let_def fin split: prod.splits sum.splits)
  from try_block_success [OF createCampaign_success [OF cc]]
  have paused: "cr_status result = R_PAUSED"
    by auto
  have look: "map_of reg1 (campaignId result) = Some ?entry"
    by (simp add: reg1 AList.update_conv')
  have dur: "\<forall>h. dto_durationHours dto = Some h \<and> h \<noteq> 0 \<longrightarrow>
                 expiresAt ?entry = createdAt ?entry + h * 3600000"
    by (simp add: number_or_def)
  show ?thesis
  proof (intro conjI)
    show "reg1 = AList.update (campaignId result) ?entry reg" by (rule reg1)
    show "\<exists>entry. map_of reg1 (campaignId result) = Some entry
              \<and> sc_status entry = ACTIVE
              \<and> expiresAt entry = createdAt entry + ?h * 3600000
              \<and> (\<forall>h. dto_durationHours dto = Some h \<and> h \<noteq> 0 \<longrightarrow>
                    expiresAt entry = createdAt entry + h * 3600000)
              \<and> sc_result entry = result
              \<and> cr_status (sc_result entry) = R_PAUSED
              \<and> stored_status_text (sc_status entry) \<noteq> result_status_text (cr_status (sc_result entry))"
      using look dur paused by (intro exI [of _ ?entry]) simp
  qed
qed

text \<open>
  The sweep on three stored campaigns, the first and the third expired and active: in two
  insertion orders on the platform that accepts every call, and on a platform that rejects
  the removal of the first campaign with an error object.
\<close>

lemma sweep_example_runs:
  "cleanupExpiredCampaigns accepting_env
     ([example_stored ''1'' 1736930000000, example_stored ''2'' 1737000000000,
       example_stored ''3'' 1736933600000], []) =
     (Inr 2,
      ([example_stored ''2'' 1737000000000],
       [Call (UpdateCampaigns ''customers/1/campaigns/1'' CS_REMOVED),
        Call (UpdateCampaigns ''customers/1/campaigns/3'' CS_REMOVED)]))
   \<and> cleanupExpiredCampaigns accepting_env
     ([example_stored ''2'' 1737000000000, example_stored ''3'' 1736933600000,
       example_stored ''1'' 1736930000000], []) =
     (Inr 2,
      ([example_stored ''2'' 1737000000000],
       [Call (UpdateCampaigns ''customers/1/campaigns/3'' CS_REMOVED),
        Call (UpdateCampaigns ''customers/1/campaigns/1'' CS_REMOVED)]))
   \<and> cleanupExpiredCampaigns rejecting_env
     ([example_stored ''1'' 1736930000000, example_stored ''2'' 1737000000000,
       example_stored ''3'' 1736933600000], []) =
     (Inr 1,
      ([example_stored ''1'' 1736930000000, example_stored ''2'' 1737000000000],
       [Call (UpdateCampaigns ''customers/1/campaigns/1'' CS_REMOVED),
        Call (UpdateCampaigns ''customers/1/campaigns/3'' CS_REMOVED)]))"
  by (simp_all add: cleanupExpiredCampaigns_def sweep_condition_def removeCampaign_def
      ads_removeCampaign_def perform_def member_def accepting_env_def rejecting_env_def
      example_env_def example_stored_def)

theorem platform_failure_leaves_registry_witness:
  "pauseCampaign rejecting_env ''1'' ([example_stored ''1'' 1737000000000], []) =
     (Inl (Platform (JObj [(''message'', JStr ''internal error'')])),
      ([example_stored ''1'' 1737000000000],
       [Call (UpdateCampaigns ''customers/1/campaigns/1'' CS_PAUSED)]))
   \<and> enableCampaign rejecting_env ''1'' ([example_stored ''1'' 1737000000000], []) =
     (Inl (Platform (JObj [(''message'', JStr ''internal error'')])),
      ([example_stored ''1'' 1737000000000],
       [Call (UpdateCampaigns ''customers/1/campaigns/1'' CS_ENABLED)]))
   \<and> removeCampaign rejecting_env ''1'' ([example_stored ''1'' 1737000000000], []) =
     (Inl (Platform (JObj [(''message'', JStr ''internal error'')])),
      ([example_stored ''1'' 1737000000000],
       [Call (UpdateCampaigns ''customers/1/campaigns/1'' CS_REMOVED)]))
   \<and> removeCampaign accepting_env ''1'' ([example_stored ''1'' 1737000000000], []) =
     (Inr (), ([], [Call (UpdateCampaigns ''customers/1/campaigns/1'' CS_REMOVED)]))"
proof -
  let ?c = "snd (example_stored ''1'' 1737000000000)"
  let ?e = "JObj [(''message'', JStr ''internal error'')]"
  have look: "map_of [example_stored ''1'' 1737000000000] ''1'' = Some ?c"
    by (simp add: example_stored_def)
  have rn: "resourceName (sc_result ?c) = ''customers/1/campaigns/1''"
    by (simp add: example_stored_def)
  have rej: "\<And>s. respond rejecting_env [] (UpdateCampaigns ''customers/1/campaigns/1'' s) = Rejected ?e"
    by (simp add: rejecting_env_def)
  have acc: "respond accepting_env [] (UpdateCampaigns ''customers/1/campaigns/1'' CS_REMOVED)
      = Resolved ''customers/1/campaigns/9''"
    by (simp add: accepting_env_def)
  from platform_failure_leaves_registry [OF look, where env = rejecting_env and tr = "[]"
      and e = "?e"] rej
  have a: "pauseCampaign rejecting_env ''1'' ([example_stored ''1'' 1737000000000], []) =
       (Inl (Platform ?e),
        ([example_stored ''1'' 1737000000000],
         [Call (UpdateCampaigns ''customers/1/campaigns/1'' CS_PAUSED)]))"
    and b: "enableCampaign rejecting_env ''1'' ([example_stored ''1'' 1737000000000], []) =
       (Inl (Platform ?e),
        ([example_stored ''1'' 1737000000000],
         [Call (UpdateCampaigns ''customers/1/campaigns/1'' CS_ENABLED)]))"
    and c: "removeCampaign rejecting_env ''1'' ([example_stored ''1'' 1737000000000], []) =
       (Inl (Platform ?e),
        ([example_stored ''1'' 1737000000000],
         [Call (UpdateCampaigns ''customers/1/campaigns/1'' CS_REMOVED)]))"
    by (simp_all add: rn)
  from platform_failure_leaves_registry [OF look, where env = accepting_env and tr = "[]"
      and r = "''customers/1/campaigns/9''"] acc
  have d: "removeCampaign accepting_env ''1'' ([example_stored ''1'' 1737000000000], []) =
     (Inr (), ([], [Call (UpdateCampaigns ''customers/1/campaigns/1'' CS_REMOVED)]))"
    by (simp add: rn example_stored_def)
  from a b c d show ?thesis by simp
qed

theorem express_campaign_registry_entry_witness:
  "fst (snd (createExpressCampaign accepting_env example_defaults [(''article-1'', example_article)]
               \<lparr>dto_articleId = ''article-1'', dto_trendKeyword = ''elecciones 2025'',
                dto_budgetMicros = None, dto_durationHours = Some 2\<rparr> ([], []))) =
     [(''9'',
       \<lparr>sc_id = ''9'', articleId = ''article-1'', trendKeyword = ''elecciones 2025'',
        sc_result = \<lparr>campaignId = ''9'', adGroupId = ''9'', cr_status = R_PAUSED,
                     resourceName = ''customers/1/campaigns/9''\<rparr>,
        createdAt = 1736937000000, expiresAt = 1736944200000, sc_status = ACTIVE\<rparr>)]"
proof -
  let ?dto = "\<lparr>dto_articleId = ''article-1'', dto_trendKeyword = ''elecciones 2025'',
                dto_budgetMicros = None, dto_durationHours = Some 2\<rparr>"
  let ?run = "createExpressCampaign accepting_env example_defaults [(''article-1'', example_article)]
                ?dto ([], [])"
  let ?result = "\<lparr>campaignId = ''9'', adGroupId = ''9'', cr_status = R_PAUSED,
                   resourceName = ''customers/1/campaigns/9''\<rparr>"
  have "fst ?run = Inr ?result"
    by (simp add: createExpressCampaign_def createCampaign_def try_block_def
        createCampaignBudget_def createAdGroup_def addKeywords_def createResponsiveSearchAd_def
        perform_def campaignData_def formatDate_def valid_time_def express_config_def
        express_end_def number_or_def example_defaults_def example_env_def accepting_env_def
        extractId_def Let_def)
  then have run: "?run = (Inr ?result, (fst (snd ?run), snd (snd ?run)))"
    by (simp add: prod_eq_iff)
  have clk: "clock accepting_env [] = 1736937000000"
    by (simp add: accepting_env_def example_env_def)
  from express_campaign_registry_entry [OF run]
  show ?thesis
    by (simp add: clk number_or_def example_defaults_def)
qed

end
